(* ===== verification/Prelude.thy ===== *)
theory Prelude
  imports Main "HOL-Library.Word"
begin

text \<open>
  Shared vocabulary of the development: the machine integer types of the C++ fields,
  the failures a C++ statement of \<^verbatim>\<open>src/main.cpp\<close> can end in (an exception that is
  never caught, or undefined behaviour), the bind of the error monad \<open>failure + 'a\<close>
  used to thread them, and generic lemmas on lists and sets shared by the components.
\<close>

type_synonym i64 = "64 word"
type_synonym i32 = "32 word"

text \<open>
  \<^verbatim>\<open>main.cpp\<close> catches no exception: every \<open>Inl\<close> below ends the process
  (\<^verbatim>\<open>std::terminate\<close>). Undefined behaviour is recorded as a failure, too, so that no
  theorem depends on what the compiler makes of it.
\<close>

datatype failure =
    ParseError            \<comment> \<open>\<^verbatim>\<open>nlohmann::json::parse_error\<close> (malformed JSON text)\<close>
  | TypeError nat         \<comment> \<open>\<^verbatim>\<open>nlohmann::json::type_error\<close> with its id (302, 305)\<close>
  | AssertionUB           \<comment> \<open>const \<^verbatim>\<open>operator[]\<close> on a missing key (JSON_ASSERT)\<close>
  | SignedOverflowUB      \<comment> \<open>\<^verbatim>\<open>int\<close> overflow of \<^verbatim>\<open>offset += limit\<close>\<close>
  | RuntimeError          \<comment> \<open>\<^verbatim>\<open>std::runtime_error\<close> thrown by loadConfig\<close>
  | FloatCastUB           \<comment> \<open>\<^verbatim>\<open>static_cast\<close> of a double whose truncation does not fit\<close>
  | NullWindowUB          \<comment> \<open>a null \<^verbatim>\<open>GLFWwindow*\<close> handed to the ImGui backend and \<^verbatim>\<open>glfwWindowShouldClose\<close>\<close>

type_synonym 'a result = "failure + 'a"

named_theorems model_simps "equations of the model unfolded by the component proofs"

text \<open>The largest value of the C++ \<^verbatim>\<open>int\<close> (32 bits on every target of the program).\<close>

definition INT_MAX :: int where
  "INT_MAX = 2147483647"

subsection \<open>Decimal text of integers\<close>

text \<open>
  \<^verbatim>\<open>std::to_string\<close> on an \<^verbatim>\<open>int\<close>: a minus sign for negative values, then the
  decimal digits without leading zeros (\<open>int_to_dec\<close>); \<open>dec_to_int\<close> reads such a
  text back.
\<close>

definition dec_digits :: string where
  "dec_digits = ''0123456789''"

fun nat_to_dec :: "nat \<Rightarrow> string" where
  "nat_to_dec n =
     (if n < 10 then [dec_digits ! n] else nat_to_dec (n div 10) @ [dec_digits ! (n mod 10)])"

declare nat_to_dec.simps [simp del]

definition int_to_dec :: "int \<Rightarrow> string" where
  "int_to_dec i = (if i < 0 then CHR ''-'' # nat_to_dec (nat (- i)) else nat_to_dec (nat i))"

definition dec_to_nat :: "string \<Rightarrow> nat" where
  "dec_to_nat cs = foldl (\<lambda>acc c. acc * 10 + (of_char c - 48)) 0 cs"

definition dec_to_int :: "string \<Rightarrow> int" where
  "dec_to_int cs =
     (if cs \<noteq> [] \<and> hd cs = CHR ''-'' then - int (dec_to_nat (tl cs)) else int (dec_to_nat cs))"

subsection \<open>The error monad\<close>

fun ebind :: "'e + 'a \<Rightarrow> ('a \<Rightarrow> 'e + 'b) \<Rightarrow> 'e + 'b" where
  "ebind (Inl e) f = Inl e"
| "ebind (Inr a) f = f a"

lemma ebind_eq_Inr [simp]:
  "ebind m f = Inr b \<longleftrightarrow> (\<exists>a. m = Inr a \<and> f a = Inr b)"
  by (cases m) auto

lemma ebind_eq_Inl:
  "ebind m f = Inl e \<longleftrightarrow> m = Inl e \<or> (\<exists>a. m = Inr a \<and> f a = Inl e)"
  by (cases m) auto

lemma ebind_Inr_right [simp]: "ebind m Inr = m"
  by (cases m) auto

subsection \<open>Lists and sets\<close>

lemma distinct_map_snoc_iff:
  "distinct (map f (xs @ [x])) \<longleftrightarrow> distinct (map f xs) \<and> f x \<notin> f ` set xs"
  by auto

lemma set_map_snoc: "set (map f (xs @ [x])) = insert (f x) (set (map f xs))"
  by simp

lemma those_replicate_Some [simp]: "those (replicate n (Some x)) = Some (replicate n x)"
  by (induction n) auto

lemma int_div_le_self: "0 \<le> (a::int) \<Longrightarrow> 0 < b \<Longrightarrow> a div b \<le> a"
  using zdiv_mono2 [of a 1 b] by simp


subsection \<open>Decimal text\<close>

lemma of_char_dec_digit: "d < 10 \<Longrightarrow> of_char (dec_digits ! d) = 48 + d"
  by (simp add: dec_digits_def less_Suc_eq numeral_eq_Suc) (elim disjE; simp)

lemma dec_digit_not_minus: "d < 10 \<Longrightarrow> dec_digits ! d \<noteq> CHR ''-''"
  using of_char_dec_digit [of d] by auto

lemma dec_to_nat_snoc: "dec_to_nat (xs @ [c]) = dec_to_nat xs * 10 + (of_char c - 48)"
  by (simp add: dec_to_nat_def)

lemma dec_to_nat_nat_to_dec: "dec_to_nat (nat_to_dec n) = n"
proof (induction n rule: nat_to_dec.induct)
  case (1 n)
  show ?case
  proof (cases "n < 10")
    case True
    then show ?thesis
      by (simp add: nat_to_dec.simps [of n] dec_to_nat_def of_char_dec_digit)
  next
    case False
    then have "dec_to_nat (nat_to_dec (n div 10)) = n div 10" using "1.IH" by simp
    with False show ?thesis
      by (simp add: nat_to_dec.simps [of n] dec_to_nat_snoc of_char_dec_digit)
  qed
qed

lemma nat_to_dec_hd: "nat_to_dec n \<noteq> [] \<and> hd (nat_to_dec n) \<noteq> CHR ''-''"
proof (induction n rule: nat_to_dec.induct)
  case (1 n)
  then show ?case
    by (cases "n < 10") (auto simp: nat_to_dec.simps [of n] dec_digit_not_minus)
qed

lemma dec_to_int_int_to_dec: "dec_to_int (int_to_dec i) = i"
  using nat_to_dec_hd [of "nat i"] nat_to_dec_hd [of "nat (- i)"]
  by (simp add: int_to_dec_def dec_to_int_def dec_to_nat_nat_to_dec)


lemma int_to_dec_inj: "int_to_dec a = int_to_dec b \<Longrightarrow> a = b"
  by (metis dec_to_int_int_to_dec)

subsection \<open>Two's complement reading of a 64-bit word\<close>

lemma sint_i64_uint: "sint (w :: i64) = (if uint w < 2 ^ 63 then uint w else uint w - 2 ^ 64)"
proof -
  have lo: "0 \<le> uint w" and hi: "uint w < 2 ^ 64"
    using uint_lt2p [of w] by simp_all
  have tb: "take_bit 64 (uint w) = uint w"
    using lo hi by (simp add: take_bit_int_eq_self)
  have d: "uint w div 2 ^ 63 = (if uint w < 2 ^ 63 then 0 else 1)"
    using lo hi by (auto simp: div_pos_pos_trivial intro: div_pos_geq [THEN trans] zdiv_eq_0_iff [THEN iffD2])
  have "bit (uint w) 63 \<longleftrightarrow> \<not> uint w < 2 ^ 63"
    by (simp only: bit_iff_odd d) simp
  then show ?thesis
    by (simp add: sint_uint signed_take_bit_eq_take_bit_minus tb del: bit_uint_iff)
qed

end
