(* ===== verification/Json.thy ===== *)
theory Json
  imports Complex_Main Prelude
begin

text \<open>
  The part of \<^verbatim>\<open>nlohmann::json\<close> that \<^verbatim>\<open>src/main.cpp\<close> relies on, written from the
  library's documented behaviour (the library is not part of the repository): a JSON
  value, \<^verbatim>\<open>contains\<close>, \<^verbatim>\<open>is_array\<close>, \<^verbatim>\<open>size\<close>, the const and the non-const
  \<^verbatim>\<open>operator[]\<close> on a key, and the conversions to \<^verbatim>\<open>std::string\<close>,
  \<^verbatim>\<open>int64_t\<close> and \<^verbatim>\<open>int32_t\<close>. Numbers are the library's \<^verbatim>\<open>number_integer\<close>
  (\<^verbatim>\<open>int64_t\<close>) and \<^verbatim>\<open>number_unsigned\<close> (\<^verbatim>\<open>uint64_t\<close>), both kept as their
  64 bits, and \<^verbatim>\<open>number_float\<close> (\<^verbatim>\<open>double\<close>), kept as the dyadic value
  \<open>m * 2 ^ e\<close> that every finite double is; \<^verbatim>\<open>json::parse\<close> never yields an infinite
  or NaN double (an overflowing literal is a parse error). An object is an association list
  read by its first binding, as the library's \<^verbatim>\<open>std::map\<close> has one binding per key.
\<close>

datatype jval =
    JNull
  | JBool bool
  | JInt i64
  | JUInt i64
  | JFloat int int
  | JStr string
  | JArr "jval list"
  | JObj "(string \<times> jval) list"

fun json_contains :: "jval \<Rightarrow> string \<Rightarrow> bool" where
  "json_contains (JObj kvs) k = (map_of kvs k \<noteq> None)"
| "json_contains _ k = False"

fun json_is_array :: "jval \<Rightarrow> bool" where
  "json_is_array (JArr _) = True"
| "json_is_array _ = False"

text \<open>\<^verbatim>\<open>size()\<close>: elements of an array, keys of an object, 0 for null, 1 otherwise.\<close>

fun json_size :: "jval \<Rightarrow> nat" where
  "json_size JNull = 0"
| "json_size (JArr xs) = length xs"
| "json_size (JObj kvs) = length (remdups (map fst kvs))"
| "json_size _ = 1"

text \<open>The elements a range-for over an array visits.\<close>

fun json_elems :: "jval \<Rightarrow> jval list" where
  "json_elems (JArr xs) = xs"
| "json_elems _ = []"

text \<open>
  Non-const \<^verbatim>\<open>operator[](key)\<close>: on an object it returns the bound value, inserting
  \<^verbatim>\<open>null\<close> for a missing key; a \<^verbatim>\<open>null\<close> value first becomes an empty object;
  any other value throws \<^verbatim>\<open>type_error.305\<close>. The inserted \<^verbatim>\<open>null\<close> is never read
  again by the program, so the updated object is not returned.
\<close>

fun json_at :: "jval \<Rightarrow> string \<Rightarrow> jval result" where
  "json_at (JObj kvs) k = Inr (case map_of kvs k of None \<Rightarrow> JNull | Some v \<Rightarrow> v)"
| "json_at JNull k = Inr JNull"
| "json_at _ k = Inl (TypeError 305)"

text \<open>
  Const \<^verbatim>\<open>operator[](key)\<close>: a missing key violates the library's
  \<^verbatim>\<open>JSON_ASSERT\<close> (undefined behaviour in a release build); a value that is not an
  object throws \<^verbatim>\<open>type_error.305\<close>.
\<close>

fun json_at_const :: "jval \<Rightarrow> string \<Rightarrow> jval result" where
  "json_at_const (JObj kvs) k = (case map_of kvs k of None \<Rightarrow> Inl AssertionUB | Some v \<Rightarrow> Inr v)"
| "json_at_const _ k = Inl (TypeError 305)"

text \<open>Implicit conversion to \<^verbatim>\<open>std::string\<close>: only a string converts.\<close>

fun json_get_string :: "jval \<Rightarrow> string result" where
  "json_get_string (JStr s) = Inr s"
| "json_get_string _ = Inl (TypeError 302)"

text \<open>
  \<^verbatim>\<open>get<int64_t>()\<close> is \<^verbatim>\<open>number_integer_t\<close> itself: both integer kinds are
  cast (the unsigned one keeps its bits), a double is truncated, anything else throws
  \<^verbatim>\<open>type_error.302\<close>.
  \<^verbatim>\<open>get<int32_t>()\<close> goes through the generic arithmetic conversion, which also
  accepts a boolean and truncates a 64-bit number to its low 32 bits
  (\<^verbatim>\<open>static_cast\<close>, modular since C++20).
\<close>

text \<open>
  \<^verbatim>\<open>static_cast\<close> of a double to a signed integer type truncates towards zero;
  when the truncated value does not fit the type, the behaviour is undefined
  ([conv.fpint]). \<open>trunc_pow2 m e\<close> truncates \<open>m * 2 ^ e\<close> with integer operations.
\<close>

definition trunc_pow2 :: "int \<Rightarrow> int \<Rightarrow> int" where
  "trunc_pow2 m e = (if 0 \<le> e then m * 2 ^ nat e else sgn m * (\<bar>m\<bar> div 2 ^ nat (- e)))"

definition float_cast :: "int \<Rightarrow> int \<Rightarrow> 'a::len word result" where
  "float_cast m e =
     (let t = trunc_pow2 m e in
      if - (2 ^ (LENGTH('a) - 1)) \<le> t \<and> t < 2 ^ (LENGTH('a) - 1) then Inr (word_of_int t)
      else Inl FloatCastUB)"

fun json_get_i64 :: "jval \<Rightarrow> i64 result" where
  "json_get_i64 (JInt w) = Inr w"
| "json_get_i64 (JUInt w) = Inr w"
| "json_get_i64 (JFloat m e) = float_cast m e"
| "json_get_i64 _ = Inl (TypeError 302)"

fun json_get_i32 :: "jval \<Rightarrow> i32 result" where
  "json_get_i32 (JInt w) = Inr (ucast w)"
| "json_get_i32 (JUInt w) = Inr (ucast w)"
| "json_get_i32 (JBool b) = Inr (of_bool b)"
| "json_get_i32 (JFloat m e) = float_cast m e"
| "json_get_i32 _ = Inl (TypeError 302)"

subsection \<open>Reference semantics of the double conversions\<close>

text \<open>The value of a double and truncation towards zero, on the rationals.\<close>

definition float_val :: "int \<Rightarrow> int \<Rightarrow> rat" where
  "float_val m e = of_int m * 2 powi e"

definition trunc_toward_zero :: "rat \<Rightarrow> int" where
  "trunc_toward_zero x = (if 0 \<le> x then \<lfloor>x\<rfloor> else \<lceil>x\<rceil>)"

subsection \<open>Facts used by the components\<close>

lemma json_at_const_Inr_iff:
  "json_at_const j k = Inr v \<longleftrightarrow> (\<exists>kvs. j = JObj kvs \<and> map_of kvs k = Some v)"
  by (cases j) (auto split: option.splits)

lemma json_get_string_Inr_iff [simp]:
  "json_get_string j = Inr s \<longleftrightarrow> j = JStr s"
  by (cases j) auto

lemma json_contains_json_at:
  "json_contains j k \<Longrightarrow> json_at j k = Inr (the (map_of (case j of JObj kvs \<Rightarrow> kvs) k))"
  by (cases j) auto

subsection \<open>Double conversions\<close>

lemma float_val_nonneg_exp: "0 \<le> e \<Longrightarrow> float_val m e = of_int (m * 2 ^ nat e)"
  by (simp add: float_val_def power_int_def)

lemma float_val_neg_exp: "e < 0 \<Longrightarrow> float_val m e = of_int m / of_int (2 ^ nat (- e))"
  by (simp add: float_val_def power_int_def field_simps)

lemma trunc_pow2_eq: "trunc_pow2 m e = trunc_toward_zero (float_val m e)"
proof (cases "0 \<le> e")
  case True
  then show ?thesis
    unfolding trunc_toward_zero_def float_val_nonneg_exp [OF True]
    by (simp add: trunc_pow2_def del: of_int_mult of_int_power)
next
  case False
  define d :: int where "d = 2 ^ nat (- e)"
  have d: "0 < d" by (simp add: d_def)
  have v: "float_val m e = of_int m / of_int d"
    using False by (simp add: float_val_neg_exp d_def)
  have tp: "trunc_pow2 m e = sgn m * (\<bar>m\<bar> div d)"
    using False by (simp add: trunc_pow2_def d_def)
  show ?thesis
  proof (cases "0 \<le> m")
    case True
    have "0 \<le> float_val m e" using True d by (simp add: v)
    moreover have "\<lfloor>float_val m e\<rfloor> = m div d" by (simp add: v floor_divide_of_int_eq)
    moreover have "sgn m * (\<bar>m\<bar> div d) = m div d" using True by (cases "m = 0") simp_all
    ultimately show ?thesis by (simp add: tp trunc_toward_zero_def)
  next
    case neg: False
    have "\<not> 0 \<le> float_val m e" using neg d by (simp add: v not_le divide_neg_pos)
    moreover have "\<lceil>float_val m e\<rceil> = - ((- m) div d)"
    proof -
      have "- (of_int m / of_int d :: rat) = of_int (- m) / of_int d" by simp
      then show ?thesis by (simp only: v ceiling_def floor_divide_of_int_eq)
    qed
    moreover have "sgn m * (\<bar>m\<bar> div d) = - ((- m) div d)" using neg by simp
    ultimately show ?thesis by (simp add: tp trunc_toward_zero_def)
  qed
qed

lemma float_cast_Inr_iff:
  "float_cast m e = Inr (w :: 'a::len word) \<longleftrightarrow>
     - (2 ^ (LENGTH('a) - 1)) \<le> trunc_pow2 m e \<and> trunc_pow2 m e < 2 ^ (LENGTH('a) - 1) \<and>
     sint w = trunc_pow2 m e"
proof -
  have "sint (word_of_int t :: 'a word) = t"
    if "- (2 ^ (LENGTH('a) - 1)) \<le> t" "t < 2 ^ (LENGTH('a) - 1)" for t
    using that by (simp add: sint_sbintrunc' signed_take_bit_int_eq_self)
  then show ?thesis
    by (auto simp: float_cast_def Let_def) (metis scast_eq scast_id)
qed

lemma float_cast_Inl_iff:
  "float_cast m e = (Inl f :: 'a::len word result) \<longleftrightarrow>
     f = FloatCastUB \<and>
     \<not> (- (2 ^ (LENGTH('a) - 1)) \<le> trunc_pow2 m e \<and> trunc_pow2 m e < 2 ^ (LENGTH('a) - 1))"
  by (auto simp: float_cast_def Let_def)

lemma float_cast_ok:
  "(\<exists>w. float_cast m e = Inr (w :: 'a::len word)) \<longleftrightarrow>
     - (2 ^ (LENGTH('a) - 1)) \<le> trunc_pow2 m e \<and> trunc_pow2 m e < 2 ^ (LENGTH('a) - 1)"
  by (simp add: float_cast_def Let_def)

end
