(* ===== verification/Fetcher.thy ===== *)
theory Fetcher
  imports Json
begin

text \<open>
  The listing fetcher, \<^verbatim>\<open>fetchLots\<close> of \<^verbatim>\<open>src/main.cpp\<close> (lines 21--73): the
  \<^verbatim>\<open>LotData\<close> struct, the two globals \<^verbatim>\<open>lots\<close> and \<^verbatim>\<open>knownStartTimes\<close> as one
  session record, one lot of a page (\<open>process_lot\<close>), the range-for over a page
  (\<open>process_lots\<close>), one request of the loop (\<open>fetch_page\<close>), the loop itself
  (\<open>fetch_loop\<close>, which also returns the requests it issued, in order) and
  \<open>fetchLots\<close>. The HTTP endpoint is a function from a request to a response whose
  body is already the result of \<^verbatim>\<open>json::parse\<close> (\<open>None\<close> for text that does not
  parse).
\<close>

record LotData =
  itemId :: string
  buyoutPrice :: i64
  amount :: i32
  startTime :: string

record session =
  lots :: "LotData list"
  knownStartTimes :: "string set"

definition session_init :: session where
  "session_init = \<lparr>lots = [], knownStartTimes = {}\<rparr>"

text \<open>\<^verbatim>\<open>const int limit = 100\<close>, the page size.\<close>

definition limit :: int where
  "limit = 100"

record request =
  req_region :: string
  req_item :: string
  req_offset :: int
  req_limit :: int
  req_auth :: string

record response =
  status_code :: int
  body :: "jval option"

type_synonym server = "request \<Rightarrow> response"

text \<open>Lines 48--50: the URL's path and query, and the \<^verbatim>\<open>Authorization\<close> header.\<close>

definition lot_request :: "string \<Rightarrow> string \<Rightarrow> string \<Rightarrow> int \<Rightarrow> request" where
  "lot_request region item apiKey offset =
     \<lparr>req_region = region, req_item = item, req_offset = offset, req_limit = limit,
      req_auth = ''Bearer '' @ apiKey\<rparr>"

text \<open>Lines 48--49: the URL string of a request, with \<^verbatim>\<open>std::to_string\<close> for the numbers.\<close>

definition request_url :: "request \<Rightarrow> string" where
  "request_url req =
     ''https://eapi.stalcraft.net/'' @ req_region req @ ''/auction/'' @ req_item req @
     ''/lots?offset='' @ int_to_dec (req_offset req) @ ''&limit='' @ int_to_dec (req_limit req)"

subsection \<open>One lot, one page\<close>

text \<open>
  Lines 58--67. \<^verbatim>\<open>lot\<close> is a const reference, so every field is read with the const
  \<^verbatim>\<open>operator[]\<close>; the braced initialiser reads \<^verbatim>\<open>itemId\<close>, \<^verbatim>\<open>buyoutPrice\<close> and
  \<^verbatim>\<open>amount\<close> left to right, and only for a start time not seen before.
\<close>

definition lot_string :: "jval \<Rightarrow> string \<Rightarrow> string result" where
  "lot_string lot k = ebind (json_at_const lot k) json_get_string"

definition lot_i64 :: "jval \<Rightarrow> string \<Rightarrow> i64 result" where
  "lot_i64 lot k = ebind (json_at_const lot k) json_get_i64"

definition lot_i32 :: "jval \<Rightarrow> string \<Rightarrow> i32 result" where
  "lot_i32 lot k = ebind (json_at_const lot k) json_get_i32"

definition process_lot :: "session \<Rightarrow> jval \<Rightarrow> session result" where
  "process_lot s lot =
     ebind (lot_string lot ''startTime'') (\<lambda>st.
       if st \<in> knownStartTimes s then Inr s
       else
         ebind (lot_string lot ''itemId'') (\<lambda>iid.
         ebind (lot_i64 lot ''buyoutPrice'') (\<lambda>bp.
         ebind (lot_i32 lot ''amount'') (\<lambda>am.
           Inr (s\<lparr>lots := lots s @ [\<lparr>itemId = iid, buyoutPrice = bp, amount = am, startTime = st\<rparr>],
                  knownStartTimes := insert st (knownStartTimes s)\<rparr>)))))"

text \<open>Lines 57--68: the range-for; an exception leaves the loop at once.\<close>

fun process_lots :: "session \<Rightarrow> jval list \<Rightarrow> session result" where
  "process_lots s [] = Inr s"
| "process_lots s (lot # rest) = ebind (process_lot s lot) (\<lambda>s'. process_lots s' rest)"

text \<open>
  Lines 50--70, one iteration of the \<^verbatim>\<open>while (true)\<close> loop up to the test on
  \<^verbatim>\<open>count\<close>: \<open>Inr (True, s')\<close> when the loop goes on to the next page,
  \<open>Inr (False, s')\<close> at a \<^verbatim>\<open>break\<close>. \<^verbatim>\<open>||\<close> evaluates its right operand only
  when \<^verbatim>\<open>contains\<close> held, so the non-const \<^verbatim>\<open>operator[]\<close> is applied to an object
  that has the key.
\<close>

definition fetch_page :: "server \<Rightarrow> request \<Rightarrow> session \<Rightarrow> (bool \<times> session) result" where
  "fetch_page srv req s =
     (let r = srv req in
      if status_code r \<noteq> 200 then Inr (False, s)
      else case body r of
        None \<Rightarrow> Inl ParseError
      | Some result \<Rightarrow>
          if \<not> json_contains result ''lots'' then Inr (False, s)
          else ebind (json_at result ''lots'') (\<lambda>arr.
            if \<not> json_is_array arr then Inr (False, s)
            else
              ebind (process_lots s (json_elems arr)) (\<lambda>s'.
                Inr (\<not> int (json_size arr) < limit, s'))))"

subsection \<open>The pagination loop\<close>

text \<open>
  Lines 47--72. After a full page, \<^verbatim>\<open>offset += limit\<close> overflows the \<^verbatim>\<open>int\<close> when
  \<open>offset + limit > INT_MAX\<close>; that is undefined behaviour, a failure here. It bounds
  the loop: the measure \<open>INT_MAX - offset\<close> falls by \<open>limit\<close> at every iteration.
\<close>

function fetch_loop ::
  "server \<Rightarrow> string \<Rightarrow> string \<Rightarrow> string \<Rightarrow> int \<Rightarrow> session \<Rightarrow> request list \<times> session result" where
  "fetch_loop srv region item apiKey offset s =
     (let req = lot_request region item apiKey offset in
      case fetch_page srv req s of
        Inl e \<Rightarrow> ([req], Inl e)
      | Inr (next_page, s') \<Rightarrow>
          if \<not> next_page then ([req], Inr s')
          else if INT_MAX < offset + limit then ([req], Inl SignedOverflowUB)
          else (case fetch_loop srv region item apiKey (offset + limit) s' of
                  (reqs, r) \<Rightarrow> (req # reqs, r)))"
  by pat_completeness auto
termination
  by (relation "measure (\<lambda>(srv, region, item, apiKey, offset, s). nat (INT_MAX - offset))")
     (auto simp: limit_def)

declare fetch_loop.simps [simp del]

text \<open>Lines 42--46: \<^verbatim>\<open>offset = 0\<close>, \<^verbatim>\<open>lots.clear()\<close>; \<^verbatim>\<open>knownStartTimes\<close> is kept.\<close>

definition fetchLots ::
  "server \<Rightarrow> string \<Rightarrow> string \<Rightarrow> string \<Rightarrow> session \<Rightarrow> request list \<times> session result" where
  "fetchLots srv region item apiKey s = fetch_loop srv region item apiKey 0 (s\<lparr>lots := []\<rparr>)"

subsection \<open>The session invariant\<close>

text \<open>
  The start times of the collected lots are distinct and all of them are known: the
  deduplication key is unique in \<^verbatim>\<open>lots\<close>.
\<close>

definition session_inv :: "session \<Rightarrow> bool" where
  "session_inv s \<longleftrightarrow>
     distinct (map startTime (lots s)) \<and> set (map startTime (lots s)) \<subseteq> knownStartTimes s"

subsection \<open>Abstract specification of a page\<close>

text \<open>
  What the code promises of a page whose entries are all well formed: each entry
  decodes to a \<open>LotData\<close>, and the page adds to \<^verbatim>\<open>lots\<close> exactly those lots whose
  start time is neither known nor taken by an earlier entry of the same batch, in
  arrival order (\<open>fresh_lots\<close>). \<open>first_fresh_lots\<close> says the same without
  recursion, by the positions of the entries.
\<close>

definition decode_lot :: "jval \<Rightarrow> LotData option" where
  "decode_lot j =
     (case (lot_string j ''startTime'', lot_string j ''itemId'', lot_i64 j ''buyoutPrice'',
            lot_i32 j ''amount'') of
        (Inr st, Inr iid, Inr bp, Inr am) \<Rightarrow>
          Some \<lparr>itemId = iid, buyoutPrice = bp, amount = am, startTime = st\<rparr>
      | _ \<Rightarrow> None)"

fun fresh_lots :: "string set \<Rightarrow> LotData list \<Rightarrow> LotData list" where
  "fresh_lots K [] = []"
| "fresh_lots K (d # ds) =
     (if startTime d \<in> K then fresh_lots K ds else d # fresh_lots (insert (startTime d) K) ds)"

definition first_fresh_lots :: "string set \<Rightarrow> LotData list \<Rightarrow> LotData list" where
  "first_fresh_lots K ds =
     map (nth ds) [i \<leftarrow> [0..<length ds].
       startTime (ds ! i) \<notin> K \<and> startTime (ds ! i) \<notin> startTime ` set (take i ds)]"

text \<open>
  A session \<open>s'\<close> extends \<open>s\<close> when it appended to \<^verbatim>\<open>lots\<close> lots whose start
  times were not known in \<open>s\<close>, and added exactly those start times to
  \<^verbatim>\<open>knownStartTimes\<close>.
\<close>

definition session_extends :: "session \<Rightarrow> session \<Rightarrow> bool" where
  "session_extends s s' \<longleftrightarrow>
     (\<exists>new. lots s' = lots s @ new \<and> set (map startTime new) \<inter> knownStartTimes s = {} \<and>
            knownStartTimes s' = knownStartTimes s \<union> set (map startTime new))"

text \<open>An endpoint that answers every request with a full page of well-formed lots.\<close>

definition always_full :: "server \<Rightarrow> bool" where
  "always_full srv \<longleftrightarrow>
     (\<forall>req. \<exists>xs. srv req = \<lparr>status_code = 200, body = Some (JObj [(''lots'', JArr xs)])\<rparr> \<and>
                 limit \<le> int (length xs) \<and> those (map decode_lot xs) \<noteq> None)"

subsection \<open>Example responses\<close>

text \<open>Fixtures for the witnesses: a lot as the endpoint sends it, a page, a failed request.\<close>

definition example_lot :: "string \<Rightarrow> jval" where
  "example_lot st =
     JObj [(''itemId'', JStr ''y1zq''), (''buyoutPrice'', JInt 1000), (''amount'', JInt 0),
           (''startTime'', JStr st)]"

definition page_response :: "jval list \<Rightarrow> response" where
  "page_response xs = \<lparr>status_code = 200, body = Some (JObj [(''lots'', JArr xs)])\<rparr>"

definition error_response :: response where
  "error_response = \<lparr>status_code = 500, body = None\<rparr>"

definition example_endpoint :: server where
  "example_endpoint = (\<lambda>_. page_response [example_lot ''t1'', example_lot ''t2'', example_lot ''t1''])"

definition example_session :: session where
  "example_session =
     \<lparr>lots = [\<lparr>itemId = ''y1zq'', buyoutPrice = 1000, amount = 0, startTime = ''t1''\<rparr>,
             \<lparr>itemId = ''y1zq'', buyoutPrice = 1000, amount = 0, startTime = ''t2''\<rparr>],
      knownStartTimes = {''t2'', ''t1''}\<rparr>"

subsection \<open>Abstract specification of a cycle\<close>

text \<open>
  An endpoint serves a sequence of pages from offset \<open>off\<close> on: the \<open>j\<close>-th request
  of the cycle gets the \<open>j\<close>-th page, every entry decodes, every page but the last is full
  and the last one is short (the loop's exit condition, line 70). \<open>decoded_pages\<close> is the
  stream of lots in the order the endpoint sends them.
\<close>

definition serves_pages ::
  "server \<Rightarrow> string \<Rightarrow> string \<Rightarrow> string \<Rightarrow> int \<Rightarrow> jval list list \<Rightarrow> bool" where
  "serves_pages srv region item apiKey off pages \<longleftrightarrow>
     pages \<noteq> [] \<and>
     (\<forall>j < length pages.
        srv (lot_request region item apiKey (off + limit * int j)) = page_response (pages ! j) \<and>
        those (map decode_lot (pages ! j)) \<noteq> None) \<and>
     (\<forall>j < length pages - 1. limit \<le> int (length (pages ! j))) \<and>
     int (length (last pages)) < limit"

definition decoded_pages :: "jval list list \<Rightarrow> LotData list" where
  "decoded_pages pages = concat (map (\<lambda>p. the (those (map decode_lot p))) pages)"

subsection \<open>Evaluation of the examples\<close>

lemma example_lot_decodes [simp]:
  "decode_lot (example_lot st) = Some \<lparr>itemId = ''y1zq'', buyoutPrice = 1000, amount = 0, startTime = st\<rparr>"
  by (simp add: decode_lot_def example_lot_def lot_string_def lot_i64_def lot_i32_def)

lemma example_cycle:
  "fetchLots example_endpoint ''eu'' ''y1zq'' ''key'' session_init =
   ([lot_request ''eu'' ''y1zq'' ''key'' 0], Inr example_session)"
  by (simp add: fetchLots_def fetch_loop.simps fetch_page_def Let_def page_response_def
      example_endpoint_def example_session_def example_lot_def session_init_def process_lot_def
      lot_string_def lot_i64_def lot_i32_def limit_def)

subsection \<open>The invariant is kept by every operation\<close>

lemma process_lot_Inr:
  assumes "process_lot s lot = Inr s'"
  obtains st where "lot_string lot ''startTime'' = Inr st" and "st \<in> knownStartTimes s" and "s' = s"
  | st l where "lot_string lot ''startTime'' = Inr st" and "st \<notin> knownStartTimes s"
      and "startTime l = st"
      and "s' = s\<lparr>lots := lots s @ [l], knownStartTimes := insert st (knownStartTimes s)\<rparr>"
proof -
  from assms obtain st where st: "lot_string lot ''startTime'' = Inr st"
    and rest: "(if st \<in> knownStartTimes s then Inr s
       else ebind (lot_string lot ''itemId'') (\<lambda>iid.
         ebind (lot_i64 lot ''buyoutPrice'') (\<lambda>bp.
         ebind (lot_i32 lot ''amount'') (\<lambda>am.
           Inr (s\<lparr>lots := lots s @ [\<lparr>itemId = iid, buyoutPrice = bp, amount = am, startTime = st\<rparr>],
                  knownStartTimes := insert st (knownStartTimes s)\<rparr>))))) = Inr s'"
    unfolding process_lot_def by auto
  show thesis
  proof (cases "st \<in> knownStartTimes s")
    case True
    with rest have "s' = s" by simp
    with st True show ?thesis by (rule that(1))
  next
    case False
    with rest obtain iid bp am where
      "s' = s\<lparr>lots := lots s @ [\<lparr>itemId = iid, buyoutPrice = bp, amount = am, startTime = st\<rparr>],
              knownStartTimes := insert st (knownStartTimes s)\<rparr>"
      by auto
    with st False show ?thesis by (intro that(2)) auto
  qed
qed

lemma process_lot_inv:
  "process_lot s lot = Inr s' \<Longrightarrow> session_inv s \<Longrightarrow> session_inv s'"
  by (erule process_lot_Inr) (auto simp: session_inv_def)

lemma process_lots_inv:
  "process_lots s ls = Inr s' \<Longrightarrow> session_inv s \<Longrightarrow> session_inv s'"
  by (induction ls arbitrary: s) (auto dest: process_lot_inv)

lemma fetch_page_inv:
  "fetch_page srv req s = Inr (b, s') \<Longrightarrow> session_inv s \<Longrightarrow> session_inv s'"
  unfolding fetch_page_def Let_def
  by (auto split: if_splits option.splits dest: process_lots_inv)

lemma fetch_loop_inv:
  "fetch_loop srv region item apiKey offset s = (reqs, Inr s') \<Longrightarrow> session_inv s \<Longrightarrow> session_inv s'"
proof (induction srv region item apiKey offset s arbitrary: reqs rule: fetch_loop.induct)
  case (1 srv region item apiKey offset s)
  show ?case
    using "1.prems" "1.IH"
    by (subst (asm) fetch_loop.simps)
       (auto simp: Let_def split: sum.splits prod.splits if_splits dest: fetch_page_inv)
qed

text \<open>
  C1. Whatever the endpoint answers and whatever was known before, a fetch cycle that
  returns leaves a lot collection whose start times are pairwise distinct and all
  recorded in \<^verbatim>\<open>knownStartTimes\<close>.
\<close>

theorem fetchLots_inv:
  "fetchLots srv region item apiKey s = (reqs, Inr s') \<Longrightarrow> session_inv s'"
  unfolding fetchLots_def
  by (erule fetch_loop_inv) (simp add: session_inv_def)

theorem fetchLots_inv_witness:
  "fetchLots example_endpoint ''eu'' ''y1zq'' ''key'' session_init =
     ([lot_request ''eu'' ''y1zq'' ''key'' 0], Inr example_session) \<and> session_inv example_session"
  using fetchLots_inv [OF example_cycle] example_cycle by blast

lemma session_inv_cleared [simp]: "session_inv (s\<lparr>lots := []\<rparr>)"
  by (simp add: session_inv_def)

subsection \<open>The abstract specification of a page\<close>

lemma first_fresh_lots_Cons:
  "first_fresh_lots K (d # ds) =
     (if startTime d \<in> K then [] else [d]) @ first_fresh_lots (insert (startTime d) K) ds"
proof -
  let ?P = "\<lambda>K ds i. startTime (ds ! i) \<notin> K \<and> startTime (ds ! i) \<notin> startTime ` set (take i ds)"
  have upt: "[0..<length (d # ds)] = 0 # map Suc [0..<length ds]"
    by (simp add: map_Suc_upt upt_conv_Cons del: upt_Suc)
  have suc: "?P K (d # ds) (Suc i) = ?P (insert (startTime d) K) ds i" for i
    by auto
  have "[i \<leftarrow> [0..<length (d # ds)]. ?P K (d # ds) i] =
      (if startTime d \<in> K then [] else [0]) @ map Suc [i \<leftarrow> [0..<length ds]. ?P (insert (startTime d) K) ds i]"
    unfolding upt by (simp add: filter_map comp_def suc conj_ac)
  then show ?thesis
    by (simp add: first_fresh_lots_def comp_def)
qed

lemma fresh_lots_first_fresh:
  "fresh_lots K ds = first_fresh_lots K ds"
proof (induction ds arbitrary: K)
  case Nil
  then show ?case by (simp add: first_fresh_lots_def)
next
  case (Cons d ds)
  then show ?case by (simp add: first_fresh_lots_Cons insert_absorb)
qed

lemma process_lot_decoded:
  "decode_lot j = Some d \<Longrightarrow>
   process_lot s j =
     Inr (if startTime d \<in> knownStartTimes s then s
          else s\<lparr>lots := lots s @ [d], knownStartTimes := insert (startTime d) (knownStartTimes s)\<rparr>)"
  by (auto simp: decode_lot_def process_lot_def split: sum.splits)

lemma process_lots_refines:
  "those (map decode_lot ls) = Some ds \<Longrightarrow>
   process_lots s ls =
     Inr (s\<lparr>lots := lots s @ fresh_lots (knownStartTimes s) ds,
            knownStartTimes := knownStartTimes s \<union> set (map startTime ds)\<rparr>)"
proof (induction ls arbitrary: s ds)
  case Nil
  then show ?case by simp
next
  case (Cons j ls)
  from Cons.prems obtain d ds' where d: "decode_lot j = Some d"
    and ds': "those (map decode_lot ls) = Some ds'" and ds: "ds = d # ds'"
    by (auto split: option.splits)
  show ?case
    using Cons.IH [OF ds'] by (simp add: process_lot_decoded [OF d] ds insert_absorb)
qed

text \<open>
  C8. The range-for over a page of well-formed entries, which tests and inserts one start
  time at a time, appends exactly the entries whose start time is not known and does not
  occur earlier in the page, in arrival order (a selection by position, without
  recursion).
\<close>

theorem process_lots_first_fresh:
  "those (map decode_lot ls) = Some ds \<Longrightarrow> process_lots s ls = Inr s' \<Longrightarrow>
   lots s' = lots s @ first_fresh_lots (knownStartTimes s) ds"
  by (auto simp: process_lots_refines fresh_lots_first_fresh)

theorem process_lots_first_fresh_witness:
  "process_lots session_init [example_lot ''t1'', example_lot ''t2'', example_lot ''t1''] =
     Inr \<lparr>lots = [\<lparr>itemId = ''y1zq'', buyoutPrice = 1000, amount = 0, startTime = ''t1''\<rparr>,
                 \<lparr>itemId = ''y1zq'', buyoutPrice = 1000, amount = 0, startTime = ''t2''\<rparr>],
          knownStartTimes = {''t2'', ''t1''}\<rparr> \<and>
   lots \<lparr>lots = [\<lparr>itemId = ''y1zq'', buyoutPrice = 1000, amount = 0, startTime = ''t1''\<rparr>,
                 \<lparr>itemId = ''y1zq'', buyoutPrice = 1000, amount = 0, startTime = ''t2''\<rparr>],
          knownStartTimes = {''t2'', ''t1''}\<rparr> =
     lots session_init @ first_fresh_lots (knownStartTimes session_init)
       [\<lparr>itemId = ''y1zq'', buyoutPrice = 1000, amount = 0, startTime = ''t1''\<rparr>,
        \<lparr>itemId = ''y1zq'', buyoutPrice = 1000, amount = 0, startTime = ''t2''\<rparr>,
        \<lparr>itemId = ''y1zq'', buyoutPrice = 1000, amount = 0, startTime = ''t1''\<rparr>]"
proof -
  have run: "process_lots session_init [example_lot ''t1'', example_lot ''t2'', example_lot ''t1''] =
     Inr \<lparr>lots = [\<lparr>itemId = ''y1zq'', buyoutPrice = 1000, amount = 0, startTime = ''t1''\<rparr>,
                 \<lparr>itemId = ''y1zq'', buyoutPrice = 1000, amount = 0, startTime = ''t2''\<rparr>],
          knownStartTimes = {''t2'', ''t1''}\<rparr>"
    by (simp add: process_lot_def example_lot_def session_init_def lot_string_def lot_i64_def
        lot_i32_def)
  show ?thesis
    using process_lots_first_fresh [OF _ run] run by simp
qed

text \<open>
  C3. A successful page whose entries are all well formed refines the abstract page:
  the loop goes on exactly when the page is full, the fresh lots of the page are
  appended in arrival order, and all start times of the page become known.
\<close>

theorem fetch_page_refines:
  assumes "status_code (srv req) = 200" and "body (srv req) = Some (JObj kvs)"
    and "map_of kvs ''lots'' = Some (JArr xs)" and "those (map decode_lot xs) = Some ds"
  shows "fetch_page srv req s =
     Inr (limit \<le> int (length xs),
          s\<lparr>lots := lots s @ fresh_lots (knownStartTimes s) ds,
            knownStartTimes := knownStartTimes s \<union> set (map startTime ds)\<rparr>)"
  using assms by (simp add: fetch_page_def process_lots_refines not_less)

theorem fetch_page_refines_witness:
  "status_code (page_response [example_lot ''t1'', example_lot ''t1'']) = 200 \<and>
   fetch_page (\<lambda>_. page_response [example_lot ''t1'', example_lot ''t1''])
     (lot_request ''eu'' ''y1zq'' ''key'' 0) session_init =
     Inr (False, \<lparr>lots = [\<lparr>itemId = ''y1zq'', buyoutPrice = 1000, amount = 0, startTime = ''t1''\<rparr>],
                  knownStartTimes = {''t1''}\<rparr>)"
  using fetch_page_refines [of "\<lambda>_. page_response [example_lot ''t1'', example_lot ''t1'']"
      "lot_request ''eu'' ''y1zq'' ''key'' 0" "[(''lots'', JArr [example_lot ''t1'', example_lot ''t1''])]"
      "[example_lot ''t1'', example_lot ''t1'']"
      "[\<lparr>itemId = ''y1zq'', buyoutPrice = 1000, amount = 0, startTime = ''t1''\<rparr>,
        \<lparr>itemId = ''y1zq'', buyoutPrice = 1000, amount = 0, startTime = ''t1''\<rparr>]"
      session_init]
  by (simp add: page_response_def session_init_def limit_def)

subsection \<open>The pagination loop\<close>

lemma fetch_loop_exc:
  "fetch_page srv (lot_request region item apiKey offset) s = Inl e \<Longrightarrow>
   fetch_loop srv region item apiKey offset s = ([lot_request region item apiKey offset], Inl e)"
  by (simp add: fetch_loop.simps)

lemma fetch_loop_stop:
  "fetch_page srv (lot_request region item apiKey offset) s = Inr (False, s') \<Longrightarrow>
   fetch_loop srv region item apiKey offset s = ([lot_request region item apiKey offset], Inr s')"
  by (simp add: fetch_loop.simps)

lemma fetch_loop_next:
  "fetch_page srv (lot_request region item apiKey offset) s = Inr (True, s') \<Longrightarrow>
   fetch_loop srv region item apiKey offset s =
     (if INT_MAX < offset + limit then ([lot_request region item apiKey offset], Inl SignedOverflowUB)
      else (lot_request region item apiKey offset # fst (fetch_loop srv region item apiKey (offset + limit) s'),
            snd (fetch_loop srv region item apiKey (offset + limit) s')))"
  by (simp add: fetch_loop.simps [of srv region item apiKey offset] split: prod.split)

lemmas fetch_loop_cases = fetch_loop_exc fetch_loop_stop fetch_loop_next

lemma fetch_page_result_cases:
  obtains (exc) e where "fetch_page srv req s = Inl e"
  | (stop) s' where "fetch_page srv req s = Inr (False, s')"
  | (full) s' where "fetch_page srv req s = Inr (True, s')"
  by (cases "fetch_page srv req s") auto

lemma fetch_loop_requests:
  "0 \<le> offset \<Longrightarrow> offset \<le> INT_MAX \<Longrightarrow>
   \<exists>n>0. fst (fetch_loop srv region item apiKey offset s) =
            map (\<lambda>j. lot_request region item apiKey (offset + limit * int j)) [0..<n] \<and>
          offset + limit * int (n - 1) \<le> INT_MAX"
proof (induction srv region item apiKey offset s rule: fetch_loop.induct)
  case (1 srv region item apiKey offset s)
  let ?req = "lot_request region item apiKey offset"
  show ?case
  proof (cases rule: fetch_page_result_cases [of srv ?req s])
    case (exc e)
    with "1.prems" show ?thesis by (intro exI [of _ 1]) (simp add: fetch_loop_cases)
  next
    case (stop s')
    with "1.prems" show ?thesis by (intro exI [of _ 1]) (simp add: fetch_loop_cases)
  next
    case (full s')
    show ?thesis
    proof (cases "INT_MAX < offset + limit")
      case True
      with full "1.prems" show ?thesis by (intro exI [of _ 1]) (simp add: fetch_loop_cases)
    next
      case False
      with "1.prems" have "0 \<le> offset + limit" "offset + limit \<le> INT_MAX"
        by (simp_all add: limit_def)
      with "1.IH" [OF refl full refl] False obtain n where "n > 0"
        and reqs: "fst (fetch_loop srv region item apiKey (offset + limit) s') =
            map (\<lambda>j. lot_request region item apiKey (offset + limit + limit * int j)) [0..<n]"
        and bound: "offset + limit + limit * int (n - 1) \<le> INT_MAX"
        by auto
      have "fst (fetch_loop srv region item apiKey offset s) =
          map (\<lambda>j. lot_request region item apiKey (offset + limit * int j)) [0..<Suc n]"
        using full False reqs by (simp add: fetch_loop_cases map_upt_Suc algebra_simps del: upt_Suc)
      moreover have "offset + limit * int (Suc n - 1) \<le> INT_MAX"
        using bound \<open>n > 0\<close> by (simp add: algebra_simps of_nat_diff)
      ultimately show ?thesis by blast
    qed
  qed
qed

text \<open>
  C4. Pagination: a cycle requests the pages at offsets \<open>0, 100, 200, \<dots>\<close> in this
  order, one request per page, and never more than 21474837 of them (the offset stays
  within \<^verbatim>\<open>int\<close>). The loop always ends.
\<close>

theorem fetchLots_requests:
  "\<exists>n>0. n \<le> 21474837 \<and>
     fst (fetchLots srv region item apiKey s) =
       map (\<lambda>j. lot_request region item apiKey (limit * int j)) [0..<n]"
proof -
  have "\<exists>n>0. fst (fetch_loop srv region item apiKey 0 (s\<lparr>lots := []\<rparr>)) =
        map (\<lambda>j. lot_request region item apiKey (0 + limit * int j)) [0..<n] \<and>
      0 + limit * int (n - 1) \<le> INT_MAX"
    by (rule fetch_loop_requests) (simp_all add: INT_MAX_def)
  then obtain n where "n > 0"
    and reqs: "fst (fetch_loop srv region item apiKey 0 (s\<lparr>lots := []\<rparr>)) =
        map (\<lambda>j. lot_request region item apiKey (0 + limit * int j)) [0..<n]"
    and bound: "0 + limit * int (n - 1) \<le> INT_MAX"
    by blast
  from bound have "n \<le> 21474837"
    by (simp add: limit_def INT_MAX_def)
  with \<open>n > 0\<close> reqs show ?thesis
    by (auto simp: fetchLots_def)
qed

text \<open>
  C5. A request that does not answer 200 ends the cycle without an exception: no further
  page is requested and the lots accumulated so far are kept.
\<close>

theorem fetch_loop_status_stop:
  "status_code (srv (lot_request region item apiKey offset)) \<noteq> 200 \<Longrightarrow>
   fetch_loop srv region item apiKey offset s = ([lot_request region item apiKey offset], Inr s)"
  by (simp add: fetch_loop_cases fetch_page_def)

theorem fetch_loop_status_stop_witness:
  "status_code error_response \<noteq> 200 \<and>
   fetch_loop (\<lambda>_. error_response) ''eu'' ''y1zq'' ''key'' 0 session_init =
     ([lot_request ''eu'' ''y1zq'' ''key'' 0], Inr session_init)"
  using fetch_loop_status_stop [of "\<lambda>_. error_response" "''eu''" "''y1zq''" "''key''" 0 session_init]
  by (simp add: error_response_def)

text \<open>
  C6. A 200 answer whose body is not valid JSON is not a recoverable stop:
  \<^verbatim>\<open>json::parse\<close> throws, the exception leaves \<^verbatim>\<open>fetchLots\<close> and nothing in the
  program catches it.
\<close>

theorem fetch_loop_parse_error:
  "status_code (srv (lot_request region item apiKey offset)) = 200 \<Longrightarrow>
   body (srv (lot_request region item apiKey offset)) = None \<Longrightarrow>
   fetch_loop srv region item apiKey offset s = ([lot_request region item apiKey offset], Inl ParseError)"
  by (simp add: fetch_loop_cases fetch_page_def)

theorem fetch_loop_parse_error_witness:
  "fetch_loop (\<lambda>_. \<lparr>status_code = 200, body = None\<rparr>) ''eu'' ''y1zq'' ''key'' 100 session_init =
     ([lot_request ''eu'' ''y1zq'' ''key'' 100], Inl ParseError)"
  using fetch_loop_parse_error [of "\<lambda>_. \<lparr>status_code = 200, body = None\<rparr>" "''eu''" "''y1zq''" "''key''" 100]
  by simp

lemma fetch_page_always_full:
  assumes "always_full srv"
  obtains s' where "fetch_page srv req s = Inr (True, s')"
proof -
  from assms obtain xs ds where
    r: "srv req = \<lparr>status_code = 200, body = Some (JObj [(''lots'', JArr xs)])\<rparr>"
    and len: "limit \<le> int (length xs)" and ds: "those (map decode_lot xs) = Some ds"
    unfolding always_full_def by blast
  show thesis
    by (rule that) (simp add: fetch_page_def r process_lots_refines [OF ds] len not_less)
qed

lemma fetch_loop_always_full:
  "always_full srv \<Longrightarrow> 0 \<le> offset \<Longrightarrow> offset \<le> INT_MAX \<Longrightarrow>
   length (fst (fetch_loop srv region item apiKey offset s)) = nat ((INT_MAX - offset) div limit) + 1 \<and>
   snd (fetch_loop srv region item apiKey offset s) = Inl SignedOverflowUB"
proof (induction srv region item apiKey offset s rule: fetch_loop.induct)
  case (1 srv region item apiKey offset s)
  obtain s' where full: "fetch_page srv (lot_request region item apiKey offset) s = Inr (True, s')"
    using fetch_page_always_full [OF "1.prems"(1)] by blast
  show ?case
  proof (cases "INT_MAX < offset + limit")
    case True
    then have "(INT_MAX - offset) div limit = 0"
      using "1.prems" by (simp add: limit_def)
    with True full show ?thesis by (simp add: fetch_loop_cases)
  next
    case False
    have IH: "length (fst (fetch_loop srv region item apiKey (offset + limit) s')) =
        nat ((INT_MAX - (offset + limit)) div limit) + 1 \<and>
        snd (fetch_loop srv region item apiKey (offset + limit) s') = Inl SignedOverflowUB"
      using "1.IH" [OF refl full refl] False "1.prems" by (simp add: limit_def)
    have "(INT_MAX - offset) div limit = (INT_MAX - (offset + limit)) div limit + 1"
      using False by (simp add: limit_def INT_MAX_def div_add_self2 [symmetric] algebra_simps)
    moreover have "0 \<le> (INT_MAX - (offset + limit)) div limit"
      using False by (simp add: limit_def)
    ultimately show ?thesis
      using IH full False by (simp add: fetch_loop_cases nat_add_distrib)
  qed
qed

text \<open>
  C7. An endpoint that answers every request with a full page (for instance one that
  ignores \<^verbatim>\<open>offset\<close>) keeps the loop going for 21474837 requests, after which
  \<^verbatim>\<open>offset += limit\<close> overflows the \<^verbatim>\<open>int\<close>: the loop has no bound of its own.
\<close>

theorem fetchLots_always_full_overflow:
  "always_full srv \<Longrightarrow>
   length (fst (fetchLots srv region item apiKey s)) = 21474837 \<and>
   snd (fetchLots srv region item apiKey s) = Inl SignedOverflowUB"
  using fetch_loop_always_full [of srv 0 region item apiKey "s\<lparr>lots := []\<rparr>"]
  by (simp add: fetchLots_def INT_MAX_def limit_def)

theorem fetchLots_always_full_overflow_witness:
  "always_full (\<lambda>_. page_response (replicate 100 (example_lot ''t1''))) \<and>
   length (fst (fetchLots (\<lambda>_. page_response (replicate 100 (example_lot ''t1'')))
     ''eu'' ''y1zq'' ''key'' session_init)) = 21474837 \<and>
   snd (fetchLots (\<lambda>_. page_response (replicate 100 (example_lot ''t1'')))
     ''eu'' ''y1zq'' ''key'' session_init) = Inl SignedOverflowUB"
proof -
  have full: "always_full (\<lambda>_. page_response (replicate 100 (example_lot ''t1'')))"
    by (simp add: always_full_def page_response_def limit_def)
  show ?thesis using fetchLots_always_full_overflow [OF full] full by simp
qed

subsection \<open>What a cycle adds to the session\<close>

lemma session_extends_refl [simp]: "session_extends s s"
  unfolding session_extends_def by (intro exI [of _ "[]"]) simp

lemma session_extends_trans:
  assumes "session_extends s1 s2" and "session_extends s2 s3"
  shows "session_extends s1 s3"
proof -
  from assms obtain new1 new2 where
    "lots s2 = lots s1 @ new1" "set (map startTime new1) \<inter> knownStartTimes s1 = {}"
    "knownStartTimes s2 = knownStartTimes s1 \<union> set (map startTime new1)"
    "lots s3 = lots s2 @ new2" "set (map startTime new2) \<inter> knownStartTimes s2 = {}"
    "knownStartTimes s3 = knownStartTimes s2 \<union> set (map startTime new2)"
    unfolding session_extends_def by blast
  then show ?thesis
    unfolding session_extends_def by (intro exI [of _ "new1 @ new2"]) auto
qed

lemma session_extends_known_mono:
  "session_extends s s' \<Longrightarrow> knownStartTimes s \<subseteq> knownStartTimes s'"
  unfolding session_extends_def by auto

lemma process_lot_extends:
  "process_lot s lot = Inr s' \<Longrightarrow> session_extends s s'"
  by (erule process_lot_Inr) (auto simp: session_extends_def intro!: exI [of _ "[_]"])

lemma process_lots_extends:
  "process_lots s ls = Inr s' \<Longrightarrow> session_extends s s'"
  by (induction ls arbitrary: s) (auto dest: process_lot_extends intro: session_extends_trans)

lemma fetch_page_extends:
  "fetch_page srv req s = Inr (b, s') \<Longrightarrow> session_extends s s'"
  unfolding fetch_page_def Let_def
  by (auto split: if_splits option.splits dest: process_lots_extends)

lemma fetch_loop_extends:
  "fetch_loop srv region item apiKey offset s = (reqs, Inr s') \<Longrightarrow> session_extends s s'"
proof (induction srv region item apiKey offset s arbitrary: reqs rule: fetch_loop.induct)
  case (1 srv region item apiKey offset s)
  show ?case
    using "1.prems" "1.IH"
    by (subst (asm) fetch_loop.simps)
       (auto simp: Let_def split: sum.splits prod.splits if_splits
             dest: fetch_page_extends intro: session_extends_trans)
qed

text \<open>
  C9. After a cycle, \<^verbatim>\<open>knownStartTimes\<close> is what it was before plus exactly the start
  times of the lots the cycle collected: nothing is forgotten and nothing else is added.
\<close>

theorem fetchLots_known:
  "fetchLots srv region item apiKey s = (reqs, Inr s') \<Longrightarrow>
   knownStartTimes s' = knownStartTimes s \<union> set (map startTime (lots s'))"
  unfolding fetchLots_def
  by (drule fetch_loop_extends) (auto simp: session_extends_def)

theorem fetchLots_known_witness:
  "fetchLots example_endpoint ''eu'' ''y1zq'' ''key'' session_init =
     ([lot_request ''eu'' ''y1zq'' ''key'' 0], Inr example_session) \<and>
   knownStartTimes example_session =
     knownStartTimes session_init \<union> set (map startTime (lots example_session))"
  using fetchLots_known [OF example_cycle] example_cycle by blast

text \<open>Replaying a cycle on a session that already knows every start time it saw.\<close>

lemma process_lot_replay:
  "process_lot s lot = Inr s' \<Longrightarrow> knownStartTimes s' \<subseteq> knownStartTimes t \<Longrightarrow>
   process_lot t lot = Inr t"
  by (erule process_lot_Inr) (auto simp: process_lot_def)

lemma process_lots_replay:
  "process_lots s ls = Inr s' \<Longrightarrow> knownStartTimes s' \<subseteq> knownStartTimes t \<Longrightarrow>
   process_lots t ls = Inr t"
proof (induction ls arbitrary: s)
  case Nil
  then show ?case by simp
next
  case (Cons lot ls)
  then obtain s1 where s1: "process_lot s lot = Inr s1" and rest: "process_lots s1 ls = Inr s'"
    by auto
  have "knownStartTimes s1 \<subseteq> knownStartTimes t"
    using process_lots_extends [OF rest] Cons.prems(2) by (auto dest: session_extends_known_mono)
  with s1 have "process_lot t lot = Inr t" by (rule process_lot_replay)
  with Cons.IH [OF rest Cons.prems(2)] show ?case by simp
qed

lemma fetch_page_replay:
  "fetch_page srv req s = Inr (b, s') \<Longrightarrow> knownStartTimes s' \<subseteq> knownStartTimes t \<Longrightarrow>
   fetch_page srv req t = Inr (b, t)"
  unfolding fetch_page_def Let_def
  by (auto split: if_splits option.splits dest: process_lots_replay)

lemma fetch_loop_replay:
  "fetch_loop srv region item apiKey offset s = (reqs, Inr s') \<Longrightarrow>
   knownStartTimes s' \<subseteq> knownStartTimes t \<Longrightarrow>
   fetch_loop srv region item apiKey offset t = (reqs, Inr t)"
proof (induction srv region item apiKey offset s arbitrary: reqs rule: fetch_loop.induct)
  case (1 srv region item apiKey offset s)
  let ?req = "lot_request region item apiKey offset"
  show ?case
  proof (cases rule: fetch_page_result_cases [of srv ?req s])
    case (exc e)
    with "1.prems" show ?thesis by (simp add: fetch_loop_cases)
  next
    case (stop s1)
    with "1.prems" show ?thesis by (auto simp: fetch_loop_cases dest: fetch_page_replay)
  next
    case (full s1)
    with "1.prems"(1) have nov: "\<not> INT_MAX < offset + limit"
      and rest: "fetch_loop srv region item apiKey (offset + limit) s1 = (tl reqs, Inr s')"
      and hd: "reqs = ?req # tl reqs"
      by (auto simp: fetch_loop_cases prod_eq_iff split: if_splits)
    have "knownStartTimes s1 \<subseteq> knownStartTimes t"
      using fetch_loop_extends [OF rest] "1.prems"(2) by (auto dest: session_extends_known_mono)
    with full have "fetch_page srv ?req t = Inr (True, t)" by (rule fetch_page_replay)
    moreover have "fetch_loop srv region item apiKey (offset + limit) t = (tl reqs, Inr t)"
      using "1.IH" [OF refl full refl _ nov rest "1.prems"(2)] by simp
    ultimately show ?thesis
      using nov hd by (simp add: fetch_loop_cases)
  qed
qed

lemma fetchLots_replay:
  "fetchLots srv region item apiKey s = (reqs, Inr s1) \<Longrightarrow>
   fetchLots srv region item apiKey s1 = (reqs, Inr (s1\<lparr>lots := []\<rparr>))"
  unfolding fetchLots_def by (erule fetch_loop_replay) simp

lemma fetch_loop_targets:
  "fetch_loop srv region item apiKey offset s = (reqs, r) \<Longrightarrow>
   list_all (\<lambda>req. \<exists>off. req = lot_request region item apiKey off) reqs"
proof (induction srv region item apiKey offset s arbitrary: reqs r rule: fetch_loop.induct)
  case (1 srv region item apiKey offset s)
  then show ?case
    by (subst (asm) fetch_loop.simps)
       (auto simp: Let_def split: sum.splits prod.splits if_splits)
qed

subsection \<open>Width of the amount field\<close>

text \<open>A lot with a new start time and a string \<^verbatim>\<open>itemId\<close>: what remains are the two
  numeric conversions, then the append to \<^verbatim>\<open>lots\<close> and the insertion of the start time.\<close>

lemma process_lot_fresh:
  "map_of kvs ''startTime'' = Some (JStr st) \<Longrightarrow> st \<notin> knownStartTimes s \<Longrightarrow>
   map_of kvs ''itemId'' = Some (JStr iid) \<Longrightarrow>
   process_lot s (JObj kvs) =
     ebind (lot_i64 (JObj kvs) ''buyoutPrice'') (\<lambda>bp. ebind (lot_i32 (JObj kvs) ''amount'') (\<lambda>am.
       Inr (s\<lparr>lots := lots s @ [\<lparr>itemId = iid, buyoutPrice = bp, amount = am, startTime = st\<rparr>],
              knownStartTimes := insert st (knownStartTimes s)\<rparr>)))"
  by (simp add: process_lot_def lot_string_def)

text \<open>
  C21. The \<^verbatim>\<open>amount\<close> of a lot is read with \<^verbatim>\<open>get<int32_t>()\<close>: a new lot whose
  amount is a JSON integer outside the 32-bit range is stored, without an error, with its
  amount reduced to the low 32 bits, next to its own item id, price and start time.
\<close>

theorem process_lot_amount_wraps:
  assumes "map_of kvs ''startTime'' = Some (JStr st)" and "st \<notin> knownStartTimes s"
    and "map_of kvs ''itemId'' = Some (JStr iid)" and "map_of kvs ''buyoutPrice'' = Some (JInt p)"
    and "map_of kvs ''amount'' = Some (JInt a)"
  shows "\<exists>lot'. process_lot s (JObj kvs) =
             Inr (s\<lparr>lots := lots s @ [lot'], knownStartTimes := insert st (knownStartTimes s)\<rparr>) \<and>
           itemId lot' = iid \<and> buyoutPrice lot' = p \<and> startTime lot' = st \<and>
           uint (amount lot') = uint a mod 2 ^ 32"
proof -
  have "process_lot s (JObj kvs) =
      Inr (s\<lparr>lots := lots s @ [\<lparr>itemId = iid, buyoutPrice = p, amount = ucast a, startTime = st\<rparr>],
             knownStartTimes := insert st (knownStartTimes s)\<rparr>)"
    using process_lot_fresh [OF assms(1-3)] assms(4,5) by (simp add: lot_i64_def lot_i32_def)
  then show ?thesis
    by (intro exI [of _ "\<lparr>itemId = iid, buyoutPrice = p, amount = ucast a, startTime = st\<rparr>"])
      (simp add: unsigned_ucast_eq take_bit_eq_mod)
qed

theorem process_lot_amount_wraps_witness:
  "map_of [(''startTime'', JStr ''t9''), (''itemId'', JStr ''y1zq''), (''buyoutPrice'', JInt 1000),
           (''amount'', JInt 4294967301)] ''amount'' = Some (JInt 4294967301) \<and>
   ''t9'' \<notin> knownStartTimes session_init \<and>
   process_lot session_init (JObj [(''startTime'', JStr ''t9''), (''itemId'', JStr ''y1zq''),
       (''buyoutPrice'', JInt 1000), (''amount'', JInt 4294967301)]) =
     Inr \<lparr>lots = [\<lparr>itemId = ''y1zq'', buyoutPrice = 1000, amount = 5, startTime = ''t9''\<rparr>],
          knownStartTimes = {''t9''}\<rparr> \<and>
   uint (4294967301 :: i64) mod 2 ^ 32 = 5"
proof -
  have "\<exists>lot'. process_lot session_init (JObj [(''startTime'', JStr ''t9''), (''itemId'', JStr ''y1zq''),
       (''buyoutPrice'', JInt 1000), (''amount'', JInt 4294967301)]) =
       Inr (session_init\<lparr>lots := lots session_init @ [lot'],
                          knownStartTimes := insert ''t9'' (knownStartTimes session_init)\<rparr>) \<and>
       itemId lot' = ''y1zq'' \<and> buyoutPrice lot' = 1000 \<and> startTime lot' = ''t9'' \<and>
       uint (amount lot') = uint (4294967301 :: i64) mod 2 ^ 32"
    by (rule process_lot_amount_wraps) (simp_all add: session_init_def)
  moreover have "process_lot session_init (JObj [(''startTime'', JStr ''t9''), (''itemId'', JStr ''y1zq''),
       (''buyoutPrice'', JInt 1000), (''amount'', JInt 4294967301)]) =
     Inr \<lparr>lots = [\<lparr>itemId = ''y1zq'', buyoutPrice = 1000, amount = 5, startTime = ''t9''\<rparr>],
          knownStartTimes = {''t9''}\<rparr>"
    by (simp add: process_lot_def lot_string_def lot_i64_def lot_i32_def session_init_def)
  ultimately show ?thesis by (simp add: session_init_def)
qed


subsection \<open>The URLs of a cycle\<close>

lemma request_url_offset_inj:
  "request_url (lot_request region item apiKey o1) = request_url (lot_request region item apiKey o2) \<Longrightarrow>
   o1 = o2"
  by (simp add: request_url_def lot_request_def int_to_dec_inj)

text \<open>
  C22. No URL is requested twice in a cycle: the rendered URLs (with the offsets written
  by \<^verbatim>\<open>std::to_string\<close>) of the requests of one cycle are pairwise distinct.
\<close>

theorem fetchLots_distinct_urls:
  "distinct (map request_url (fst (fetchLots srv region item apiKey s)))"
proof -
  have "\<exists>n>0. fst (fetch_loop srv region item apiKey 0 (s\<lparr>lots := []\<rparr>)) =
        map (\<lambda>j. lot_request region item apiKey (0 + limit * int j)) [0..<n] \<and>
      0 + limit * int (n - 1) \<le> INT_MAX"
    by (rule fetch_loop_requests) (simp_all add: INT_MAX_def)
  then obtain n where reqs: "fst (fetchLots srv region item apiKey s) =
      map (\<lambda>j. lot_request region item apiKey (limit * int j)) [0..<n]"
    by (auto simp: fetchLots_def)
  have "inj_on (\<lambda>j. request_url (lot_request region item apiKey (limit * int j))) {0..<n}"
    by (rule inj_onI) (auto dest: request_url_offset_inj simp: limit_def)
  then show ?thesis
    by (simp add: reqs distinct_map comp_def)
qed

subsection \<open>A whole cycle against its specification\<close>

lemma fresh_lots_append:
  "fresh_lots K (xs @ ys) = fresh_lots K xs @ fresh_lots (K \<union> set (map startTime xs)) ys"
  by (induction xs arbitrary: K) (auto simp: insert_absorb)

lemma serves_pages_Cons:
  assumes sp: "serves_pages srv region item apiKey off (p # ps)" and ne: "ps \<noteq> []"
  shows "serves_pages srv region item apiKey (off + limit) ps"
proof -
  have off: "off + limit * int (Suc j) = off + limit + limit * int j" for j
    by (simp add: algebra_simps)
  from sp have
    resp: "\<forall>j < length (p # ps).
        srv (lot_request region item apiKey (off + limit * int j)) = page_response ((p # ps) ! j) \<and>
        those (map decode_lot ((p # ps) ! j)) \<noteq> None"
    and full: "\<forall>j < length (p # ps) - 1. limit \<le> int (length ((p # ps) ! j))"
    and short: "int (length (last (p # ps))) < limit"
    unfolding serves_pages_def by blast+
  have "\<forall>j < length ps.
        srv (lot_request region item apiKey (off + limit + limit * int j)) = page_response (ps ! j) \<and>
        those (map decode_lot (ps ! j)) \<noteq> None"
  proof (intro allI impI)
    fix j assume "j < length ps"
    with resp have "srv (lot_request region item apiKey (off + limit * int (Suc j))) = page_response (ps ! j) \<and>
        those (map decode_lot (ps ! j)) \<noteq> None" by fastforce
    then show "srv (lot_request region item apiKey (off + limit + limit * int j)) = page_response (ps ! j) \<and>
        those (map decode_lot (ps ! j)) \<noteq> None" by (metis off)
  qed
  moreover have "\<forall>j < length ps - 1. limit \<le> int (length (ps ! j))"
  proof (intro allI impI)
    fix j assume "j < length ps - 1"
    then have "Suc j < length (p # ps) - 1" by simp
    with full show "limit \<le> int (length (ps ! j))" by fastforce
  qed
  moreover have "int (length (last ps)) < limit"
    using short ne by simp
  ultimately show ?thesis
    using ne unfolding serves_pages_def by blast
qed

lemma decoded_pages_Cons:
  "those (map decode_lot p) = Some dp \<Longrightarrow> decoded_pages (p # ps) = dp @ decoded_pages ps"
  by (simp add: decoded_pages_def)

lemma fetch_loop_serves_pages:
  "serves_pages srv region item apiKey off pages \<Longrightarrow>
   off + limit * int (length pages - 1) \<le> INT_MAX \<Longrightarrow>
   fetch_loop srv region item apiKey off t =
     (map (\<lambda>j. lot_request region item apiKey (off + limit * int j)) [0..<length pages],
      Inr (t\<lparr>lots := lots t @ fresh_lots (knownStartTimes t) (decoded_pages pages),
             knownStartTimes := knownStartTimes t \<union> set (map startTime (decoded_pages pages))\<rparr>))"
proof (induction pages arbitrary: off t)
  case Nil
  then show ?case by (simp add: serves_pages_def)
next
  case (Cons p ps)
  from Cons.prems(1) have all: "\<forall>j < length (p # ps).
        srv (lot_request region item apiKey (off + limit * int j)) = page_response ((p # ps) ! j) \<and>
        those (map decode_lot ((p # ps) ! j)) \<noteq> None"
    and fulls: "\<forall>j < length (p # ps) - 1. limit \<le> int (length ((p # ps) ! j))"
    unfolding serves_pages_def by blast+
  from all [rule_format, of 0] have resp: "srv (lot_request region item apiKey off) = page_response p"
    and dec: "those (map decode_lot p) \<noteq> None"
    by simp_all
  then obtain dp where dp: "those (map decode_lot p) = Some dp" by blast
  let ?t1 = "t\<lparr>lots := lots t @ fresh_lots (knownStartTimes t) dp,
                knownStartTimes := knownStartTimes t \<union> set (map startTime dp)\<rparr>"
  have page: "fetch_page srv (lot_request region item apiKey off) t = Inr (limit \<le> int (length p), ?t1)"
    by (simp add: fetch_page_def resp page_response_def process_lots_refines [OF dp] not_less)
  show ?case
  proof (cases "ps = []")
    case True
    with Cons.prems(1) have "int (length p) < limit" by (simp add: serves_pages_def)
    with page True show ?thesis
      by (simp add: fetch_loop_cases decoded_pages_def dp)
  next
    case False
    with fulls [rule_format, of 0] have "limit \<le> int (length p)"
      by simp
    with page have full: "fetch_page srv (lot_request region item apiKey off) t = Inr (True, ?t1)"
      by simp
    from False have len: "1 \<le> int (length ps)" by (simp add: Suc_le_eq)
    from False have "int (length ps - 1) = int (length ps) - 1" by (cases ps) auto
    with Cons.prems(2) len have nov: "\<not> INT_MAX < off + limit"
      and bound: "off + limit + limit * int (length ps - 1) \<le> INT_MAX"
      by (simp_all add: limit_def algebra_simps)
    have IH: "fetch_loop srv region item apiKey (off + limit) ?t1 =
        (map (\<lambda>j. lot_request region item apiKey (off + limit + limit * int j)) [0..<length ps],
         Inr (?t1\<lparr>lots := lots ?t1 @ fresh_lots (knownStartTimes ?t1) (decoded_pages ps),
                  knownStartTimes := knownStartTimes ?t1 \<union> set (map startTime (decoded_pages ps))\<rparr>))"
      by (rule Cons.IH [OF serves_pages_Cons [OF Cons.prems(1) False] bound])
    show ?thesis
      using full nov IH
      by (simp add: fetch_loop_cases decoded_pages_Cons [OF dp] fresh_lots_append map_upt_Suc
          algebra_simps Un_assoc del: upt_Suc)
  qed
qed

lemma fresh_lots_replicate_known:
  "startTime d \<in> K \<Longrightarrow> fresh_lots K (replicate n d @ ds) = fresh_lots K ds"
  by (induction n) simp_all

lemma fresh_lots_replicate:
  "0 < n \<Longrightarrow> fresh_lots K (replicate n d @ ds) =
     (if startTime d \<in> K then fresh_lots K ds else d # fresh_lots (insert (startTime d) K) ds)"
  by (cases n) (simp_all add: fresh_lots_replicate_known)

text \<open>
  C24. A cycle against an endpoint that serves a sequence of pages (all but the last full,
  at most 21474837 of them so that the offset stays an \<^verbatim>\<open>int\<close>) requests the pages at
  offsets 0, 100, 200, \<dots> in order, one request per page, and leaves \<^verbatim>\<open>lots\<close> holding
  exactly the lots of the concatenated pages whose start time was neither known before
  the cycle nor seen earlier in it, in the order served; \<^verbatim>\<open>knownStartTimes\<close> gains
  every start time served. The spec's 250-lot test is the instance with three pages of
  100, 100 and 50 lots.
\<close>

theorem fetchLots_serves_pages:
  "serves_pages srv region item apiKey 0 pages \<Longrightarrow> length pages \<le> 21474837 \<Longrightarrow>
   fetchLots srv region item apiKey s =
     (map (\<lambda>j. lot_request region item apiKey (limit * int j)) [0..<length pages],
      Inr (s\<lparr>lots := fresh_lots (knownStartTimes s) (decoded_pages pages),
             knownStartTimes := knownStartTimes s \<union> set (map startTime (decoded_pages pages))\<rparr>))"
  using fetch_loop_serves_pages [of srv region item apiKey 0 pages "s\<lparr>lots := []\<rparr>"]
  by (simp add: fetchLots_def limit_def INT_MAX_def)

theorem fetchLots_serves_pages_witness:
  "serves_pages (\<lambda>req. if req_offset req = 0 then page_response (replicate 100 (example_lot ''t1''))
                      else if req_offset req = 100 then page_response (replicate 100 (example_lot ''t2''))
                      else page_response [example_lot ''t3''])
     ''eu'' ''y1zq'' ''key'' 0
     [replicate 100 (example_lot ''t1''), replicate 100 (example_lot ''t2''), [example_lot ''t3'']] \<and>
   fetchLots (\<lambda>req. if req_offset req = 0 then page_response (replicate 100 (example_lot ''t1''))
                   else if req_offset req = 100 then page_response (replicate 100 (example_lot ''t2''))
                   else page_response [example_lot ''t3''])
     ''eu'' ''y1zq'' ''key'' session_init =
   ([lot_request ''eu'' ''y1zq'' ''key'' 0, lot_request ''eu'' ''y1zq'' ''key'' 100,
     lot_request ''eu'' ''y1zq'' ''key'' 200],
    Inr \<lparr>lots = [\<lparr>itemId = ''y1zq'', buyoutPrice = 1000, amount = 0, startTime = ''t1''\<rparr>,
                 \<lparr>itemId = ''y1zq'', buyoutPrice = 1000, amount = 0, startTime = ''t2''\<rparr>,
                 \<lparr>itemId = ''y1zq'', buyoutPrice = 1000, amount = 0, startTime = ''t3''\<rparr>],
         knownStartTimes = {''t1'', ''t2'', ''t3''}\<rparr>)"
proof -
  have sp: "serves_pages (\<lambda>req. if req_offset req = 0 then page_response (replicate 100 (example_lot ''t1''))
                      else if req_offset req = 100 then page_response (replicate 100 (example_lot ''t2''))
                      else page_response [example_lot ''t3''])
     ''eu'' ''y1zq'' ''key'' 0
     [replicate 100 (example_lot ''t1''), replicate 100 (example_lot ''t2''), [example_lot ''t3'']]"
    by (simp add: serves_pages_def lot_request_def limit_def less_Suc_eq numeral_eq_Suc
        page_response_def)
  show ?thesis
    using fetchLots_serves_pages [OF sp] sp
    by (simp add: decoded_pages_def fresh_lots_replicate session_init_def limit_def insert_commute)
qed

end
