(* ===== verification/Decoding.thy ===== *)
theory Decoding
  imports Fetcher
begin

text \<open>
  The types of the entries of a \<^verbatim>\<open>lots\<close> array that \<^verbatim>\<open>fetchLots\<close> accepts
  (\<^verbatim>\<open>src/main.cpp\<close>, lines 58--67). \<open>lot_typed\<close> states them as a predicate on
  the JSON value, from nlohmann's conversion rules: the two strings must be strings,
  \<^verbatim>\<open>buyoutPrice\<close> a number whose truncation fits \<^verbatim>\<open>int64_t\<close>, \<^verbatim>\<open>amount\<close> a
  number or a boolean whose truncation fits \<^verbatim>\<open>int32_t\<close>. The lemmas show that this
  is exactly what \<open>process_lot\<close> accepts for a lot it has not seen before, and that
  a double is read as its value truncated towards zero.
\<close>

fun is_jstr :: "jval \<Rightarrow> bool" where
  "is_jstr (JStr _) = True"
| "is_jstr _ = False"

fun fits_i64 :: "jval \<Rightarrow> bool" where
  "fits_i64 (JInt _) = True"
| "fits_i64 (JUInt _) = True"
| "fits_i64 (JFloat m e) =
     (- (2 ^ 63) \<le> trunc_toward_zero (float_val m e) \<and> trunc_toward_zero (float_val m e) < 2 ^ 63)"
| "fits_i64 _ = False"

fun fits_i32 :: "jval \<Rightarrow> bool" where
  "fits_i32 (JInt _) = True"
| "fits_i32 (JUInt _) = True"
| "fits_i32 (JBool _) = True"
| "fits_i32 (JFloat m e) =
     (- (2 ^ 31) \<le> trunc_toward_zero (float_val m e) \<and> trunc_toward_zero (float_val m e) < 2 ^ 31)"
| "fits_i32 _ = False"

definition field_has :: "(string \<times> jval) list \<Rightarrow> string \<Rightarrow> (jval \<Rightarrow> bool) \<Rightarrow> bool" where
  "field_has kvs k P = (case map_of kvs k of Some v \<Rightarrow> P v | None \<Rightarrow> False)"

definition lot_typed :: "jval \<Rightarrow> bool" where
  "lot_typed j =
     (case j of
        JObj kvs \<Rightarrow>
          field_has kvs ''startTime'' is_jstr \<and> field_has kvs ''itemId'' is_jstr \<and>
          field_has kvs ''buyoutPrice'' fits_i64 \<and> field_has kvs ''amount'' fits_i32
      | _ \<Rightarrow> False)"

subsection \<open>Conversions succeed exactly on the typed values\<close>

lemma json_get_i64_ok: "(\<exists>w. json_get_i64 v = Inr w) \<longleftrightarrow> fits_i64 v"
  by (cases v) (auto simp: float_cast_ok trunc_pow2_eq)

lemma json_get_i32_ok: "(\<exists>w. json_get_i32 v = Inr w) \<longleftrightarrow> fits_i32 v"
  by (cases v) (auto simp: float_cast_ok trunc_pow2_eq)

lemma json_get_string_ok: "(\<exists>x. json_get_string v = Inr x) \<longleftrightarrow> is_jstr v"
  by (cases v) auto

lemma field_ok:
  assumes "\<And>v. (\<exists>x. g v = Inr x) \<longleftrightarrow> P v"
  shows "(\<exists>x. ebind (json_at_const (JObj kvs) k) g = Inr x) \<longleftrightarrow> field_has kvs k P"
  using assms by (auto simp: field_has_def split: option.splits)

lemma ebind_ex_Inr: "(\<exists>y. ebind m f = Inr y) \<longleftrightarrow> (\<exists>x. m = Inr x \<and> (\<exists>y. f x = Inr y))"
  by (cases m) auto

lemmas lot_field_ok =
  field_ok [OF json_get_string_ok] field_ok [OF json_get_i64_ok] field_ok [OF json_get_i32_ok]

subsection \<open>What a lot must look like\<close>

text \<open>
  C27. \<open>process_lot\<close> accepts an entry exactly when it is an object whose
  \<^verbatim>\<open>startTime\<close> is a string and, unless that start time is already known, whose
  other three fields have the types of \<open>lot_typed\<close>. An entry with a known start time
  is skipped whatever its other fields hold.
\<close>

theorem process_lot_typing:
  "(\<exists>s'. process_lot s lot = Inr s') \<longleftrightarrow>
     (\<exists>kvs st. lot = JObj kvs \<and> map_of kvs ''startTime'' = Some (JStr st) \<and>
              (st \<in> knownStartTimes s \<or> lot_typed lot))"
proof (cases lot)
  case (JObj kvs)
  then show ?thesis
    by (auto simp: process_lot_def lot_string_def lot_i64_def lot_i32_def lot_typed_def field_has_def
        json_get_i64_ok [symmetric] json_get_i32_ok [symmetric] json_get_string_ok [symmetric]
        split: option.splits) (metis (no_types))
qed (auto simp: process_lot_def lot_string_def)

subsection \<open>Numbers sent as doubles\<close>

text \<open>
  C28. A new lot whose \<^verbatim>\<open>buyoutPrice\<close> is sent as a double is stored with that value
  truncated towards zero when the truncation fits \<^verbatim>\<open>int64_t\<close>; otherwise the
  conversion is undefined behaviour and nothing is stored.
\<close>

theorem process_lot_price_double:
  assumes "map_of kvs ''startTime'' = Some (JStr st)" and "st \<notin> knownStartTimes s"
    and "map_of kvs ''itemId'' = Some (JStr iid)" and "map_of kvs ''buyoutPrice'' = Some (JFloat m e)"
    and "map_of kvs ''amount'' = Some (JInt a)"
  shows "process_lot s (JObj kvs) =
     (let t = trunc_toward_zero (float_val m e) in
      if - (2 ^ 63) \<le> t \<and> t < 2 ^ 63 then
        Inr (s\<lparr>lots := lots s @ [\<lparr>itemId = iid, buyoutPrice = word_of_int t, amount = ucast a, startTime = st\<rparr>],
               knownStartTimes := insert st (knownStartTimes s)\<rparr>)
      else Inl FloatCastUB)"
  using process_lot_fresh [OF assms(1-3)] assms(4,5)
  by (simp add: lot_i64_def lot_i32_def float_cast_def trunc_pow2_eq Let_def)

theorem process_lot_price_double_witness:
  "process_lot session_init (JObj [(''startTime'', JStr ''t9''), (''itemId'', JStr ''y1zq''), (''buyoutPrice'', JFloat 4003 (- 2)), (''amount'', JInt 1)]) =
     Inr \<lparr>lots = [\<lparr>itemId = ''y1zq'', buyoutPrice = 1000, amount = 1, startTime = ''t9''\<rparr>],
          knownStartTimes = {''t9''}\<rparr> \<and>
   process_lot session_init (JObj [(''startTime'', JStr ''t9''), (''itemId'', JStr ''y1zq''), (''buyoutPrice'', JFloat 1 63), (''amount'', JInt 1)]) = Inl FloatCastUB"
proof -
  have t1: "trunc_toward_zero (float_val 4003 (- 2)) = 1000"
    by (simp add: trunc_pow2_eq [symmetric] trunc_pow2_def)
  have t2: "trunc_toward_zero (float_val 1 63) = 2 ^ 63"
    by (simp add: trunc_pow2_eq [symmetric] trunc_pow2_def)
  show ?thesis
    using process_lot_price_double [of "[(''startTime'', JStr ''t9''), (''itemId'', JStr ''y1zq''), (''buyoutPrice'', JFloat 4003 (- 2)), (''amount'', JInt 1)]" "''t9''" session_init "''y1zq''" 4003 "- 2" 1]
      process_lot_price_double [of "[(''startTime'', JStr ''t9''), (''itemId'', JStr ''y1zq''), (''buyoutPrice'', JFloat 1 63), (''amount'', JInt 1)]" "''t9''" session_init "''y1zq''" 1 63 1]
    by (simp add: session_init_def t1 t2)
qed

text \<open>
  C29. A new lot whose \<^verbatim>\<open>amount\<close> is sent as a double is stored with that value
  truncated towards zero (so -2.5 becomes -2, not -3) when it fits \<^verbatim>\<open>int32_t\<close>; a
  double from \<open>2 ^ 31\<close> on is undefined behaviour, where the same value sent as an
  integer is reduced modulo \<open>2 ^ 32\<close> (C21).
\<close>

theorem process_lot_amount_double:
  assumes "map_of kvs ''startTime'' = Some (JStr st)" and "st \<notin> knownStartTimes s"
    and "map_of kvs ''itemId'' = Some (JStr iid)" and "map_of kvs ''buyoutPrice'' = Some (JInt p)"
    and "map_of kvs ''amount'' = Some (JFloat m e)"
  shows "process_lot s (JObj kvs) =
     (let t = trunc_toward_zero (float_val m e) in
      if - (2 ^ 31) \<le> t \<and> t < 2 ^ 31 then
        Inr (s\<lparr>lots := lots s @ [\<lparr>itemId = iid, buyoutPrice = p, amount = word_of_int t, startTime = st\<rparr>],
               knownStartTimes := insert st (knownStartTimes s)\<rparr>)
      else Inl FloatCastUB)"
  using process_lot_fresh [OF assms(1-3)] assms(4,5)
  by (simp add: lot_i64_def lot_i32_def float_cast_def trunc_pow2_eq Let_def)

theorem process_lot_amount_double_witness:
  "process_lot session_init (JObj [(''startTime'', JStr ''t9''), (''itemId'', JStr ''y1zq''), (''buyoutPrice'', JInt 1000), (''amount'', JFloat (- 5) (- 1))]) =
     Inr \<lparr>lots = [\<lparr>itemId = ''y1zq'', buyoutPrice = 1000, amount = - 2, startTime = ''t9''\<rparr>],
          knownStartTimes = {''t9''}\<rparr> \<and>
   process_lot session_init (JObj [(''startTime'', JStr ''t9''), (''itemId'', JStr ''y1zq''), (''buyoutPrice'', JInt 1000), (''amount'', JFloat 1 31)]) = Inl FloatCastUB"
proof -
  have t1: "trunc_toward_zero (float_val (- 5) (- 1)) = - 2"
    by (simp add: trunc_pow2_eq [symmetric] trunc_pow2_def)
  have t2: "trunc_toward_zero (float_val 1 31) = 2 ^ 31"
    by (simp add: trunc_pow2_eq [symmetric] trunc_pow2_def)
  show ?thesis
    using process_lot_amount_double [of "[(''startTime'', JStr ''t9''), (''itemId'', JStr ''y1zq''), (''buyoutPrice'', JInt 1000), (''amount'', JFloat (- 5) (- 1))]" "''t9''" session_init "''y1zq''" 1000 "- 5" "- 1"]
      process_lot_amount_double [of "[(''startTime'', JStr ''t9''), (''itemId'', JStr ''y1zq''), (''buyoutPrice'', JInt 1000), (''amount'', JFloat 1 31)]" "''t9''" session_init "''y1zq''" 1000 1 31]
    by (simp add: session_init_def t1 t2)
qed

end
