(* ===== verification/Display.thy ===== *)
theory Display
  imports Fetcher "HOL-Library.Signed_Division"
begin

text \<open>
  The table that \<^verbatim>\<open>drawUI\<close> renders from \<^verbatim>\<open>lots\<close> (\<^verbatim>\<open>src/main.cpp\<close>, lines
  91--112): the count line and one row per lot, with the unit price
  \<^verbatim>\<open>lot.buyoutPrice / std::max(1, lot.amount)\<close> computed on the machine integers.
  \<^verbatim>\<open>std::max(a, b)\<close> is \<^verbatim>\<open>(a < b) ? b : a\<close> on \<^verbatim>\<open>int\<close>; the \<^verbatim>\<open>int\<close>
  divisor is converted to \<^verbatim>\<open>int64_t\<close> and the division truncates towards zero.
  The ImGui calls that draw the rows are not modelled: a row is the tuple of values
  they print.
\<close>

definition std_max_i32 :: "i32 \<Rightarrow> i32 \<Rightarrow> i32" where
  "std_max_i32 a b = (if a <s b then b else a)"

text \<open>C++ \<^verbatim>\<open>int64_t\<close> division: truncation towards zero, on the two's complement values.\<close>

definition c_div_i64 :: "i64 \<Rightarrow> i64 \<Rightarrow> i64" where
  "c_div_i64 a b = word_of_int (sint a sdiv sint b)"

definition price_per_unit :: "LotData \<Rightarrow> i64" where
  "price_per_unit lot = c_div_i64 (buyoutPrice lot) (scast (std_max_i32 1 (amount lot)))"

record table_row =
  row_price :: i64
  row_amount :: i32
  row_unit_price :: i64
  row_start_time :: string

definition table_rows :: "LotData list \<Rightarrow> table_row list" where
  "table_rows ls =
     map (\<lambda>lot. \<lparr>row_price = buyoutPrice lot, row_amount = amount lot,
                 row_unit_price = price_per_unit lot, row_start_time = startTime lot\<rparr>) ls"

text \<open>Line 91: \<^verbatim>\<open>"Lots loaded: %zu", lots.size()\<close>.\<close>

definition lots_loaded :: "session \<Rightarrow> nat" where
  "lots_loaded s = length (lots s)"

text \<open>
  Lines 102--108: the four cells of a row as \<^verbatim>\<open>ImGui::Text\<close> prints them,
  \<^verbatim>\<open>"%lld"\<close> and \<^verbatim>\<open>"%d"\<close> in signed decimal; \<^verbatim>\<open>"%s"\<close> of
  \<^verbatim>\<open>startTime.c_str()\<close> prints the string up to its first NUL character (a JSON
  string may contain \<^verbatim>\<open>\u0000\<close>).
\<close>

definition format_row :: "table_row \<Rightarrow> string list" where
  "format_row r =
     [int_to_dec (sint (row_price r)), int_to_dec (sint (row_amount r)),
      int_to_dec (sint (row_unit_price r)), takeWhile (\<lambda>c. c \<noteq> CHR 0x00) (row_start_time r)]"

subsection \<open>Signed values of the conversions\<close>

lemma sint_scast_i32_i64 [simp]: "sint (scast (w :: i32) :: i64) = sint w"
  by (rule sint_up_scast) (simp add: is_up)

lemma sint_std_max_i32_1 [simp]: "sint (std_max_i32 1 a) = max 1 (sint a)"
  by (simp add: std_max_i32_def word_sless_alt max_def)

lemma sdiv_pos_divisor_bounds:
  fixes k l :: int
  assumes "0 < l"
  shows "min k 0 \<le> k sdiv l \<and> k sdiv l \<le> max k 0"
proof (cases "0 \<le> k")
  case True
  then have "k sdiv l = k div l" using assms by (simp add: signed_divide_int_def sgn_if)
  moreover have "0 \<le> k div l" "k div l \<le> k"
    using True assms by (simp_all add: pos_imp_zdiv_nonneg_iff int_div_le_self)
  ultimately show ?thesis using True by simp
next
  case False
  then have "k sdiv l = - (- k div l)" using assms by (simp add: signed_divide_int_def sgn_if)
  moreover have "0 \<le> - k div l" "- k div l \<le> - k"
    using False assms by (simp_all add: pos_imp_zdiv_nonneg_iff int_div_le_self)
  ultimately show ?thesis using False by simp
qed

lemma sint_c_div_i64:
  assumes "0 < sint b"
  shows "sint (c_div_i64 a b) = sint a sdiv sint b"
proof -
  have "- (2 ^ 63) \<le> sint a" "sint a < 2 ^ 63"
    using sint_ge [of a] sint_lt [of a] by simp_all
  with sdiv_pos_divisor_bounds [OF assms, of "sint a"]
  have "- (2 ^ 63) \<le> sint a sdiv sint b" "sint a sdiv sint b < 2 ^ 63"
    by linarith+
  then show ?thesis
    by (simp add: c_div_i64_def sint_sbintrunc' signed_take_bit_int_eq_self)
qed

text \<open>
  C10. The unit price shown in the table is the exact quotient of the two's complement
  price by \<open>max 1 amount\<close>, truncated towards zero: the \<^verbatim>\<open>int64_t\<close> division never
  overflows and never divides by zero.
\<close>

theorem sint_price_per_unit:
  "sint (price_per_unit lot) = sint (buyoutPrice lot) sdiv max 1 (sint (amount lot))"
  by (simp add: price_per_unit_def sint_c_div_i64)

text \<open>
  C11. A lot whose amount is zero (or negative) shows its whole price as unit price:
  \<^verbatim>\<open>std::max(1, amount)\<close> divides by 1.
\<close>

theorem ppu_nonpos_amount:
  "sint (amount lot) \<le> 0 \<Longrightarrow> price_per_unit lot = buyoutPrice lot"
  by (simp add: price_per_unit_def std_max_i32_def word_sless_alt c_div_i64_def)

theorem ppu_nonpos_amount_witness:
  "sint (amount \<lparr>itemId = ''y1zq'', buyoutPrice = 1000, amount = 0, startTime = ''t1''\<rparr>) \<le> 0 \<and>
   price_per_unit \<lparr>itemId = ''y1zq'', buyoutPrice = 1000, amount = 0, startTime = ''t1''\<rparr> = 1000"
  using ppu_nonpos_amount [of "\<lparr>itemId = ''y1zq'', buyoutPrice = 1000, amount = 0, startTime = ''t1''\<rparr>"]
  by simp

text \<open>
  C12. For a non-negative price the unit price lies between 0 and the price, and
  unit price times the divisor never exceeds the price.
\<close>

theorem ppu_bounds:
  assumes "0 \<le> sint (buyoutPrice lot)"
  shows "0 \<le> sint (price_per_unit lot) \<and> sint (price_per_unit lot) \<le> sint (buyoutPrice lot) \<and>
         sint (price_per_unit lot) * max 1 (sint (amount lot)) \<le> sint (buyoutPrice lot)"
proof -
  let ?p = "sint (buyoutPrice lot)" and ?d = "max 1 (sint (amount lot))"
  have d: "0 < ?d" by simp
  have eq: "sint (price_per_unit lot) = ?p div ?d"
    using assms d by (simp add: sint_price_per_unit signed_divide_int_def sgn_if)
  have "?p div ?d * ?d \<le> ?p"
    by (metis d div_mult_mod_eq le_add_same_cancel1 pos_mod_sign)
  with assms d show ?thesis
    by (simp add: eq pos_imp_zdiv_nonneg_iff int_div_le_self)
qed

theorem ppu_bounds_witness:
  "0 \<le> sint (buyoutPrice \<lparr>itemId = ''y1zq'', buyoutPrice = 1000, amount = 3, startTime = ''t1''\<rparr>) \<and>
   price_per_unit \<lparr>itemId = ''y1zq'', buyoutPrice = 1000, amount = 3, startTime = ''t1''\<rparr> = 333 \<and>
   sint (price_per_unit \<lparr>itemId = ''y1zq'', buyoutPrice = 1000, amount = 3, startTime = ''t1''\<rparr>) * 3 \<le> 1000"
proof -
  have "price_per_unit \<lparr>itemId = ''y1zq'', buyoutPrice = 1000, amount = 3, startTime = ''t1''\<rparr> = 333"
    by (simp add: price_per_unit_def std_max_i32_def c_div_i64_def word_sless_alt)
  with ppu_bounds [of "\<lparr>itemId = ''y1zq'', buyoutPrice = 1000, amount = 3, startTime = ''t1''\<rparr>"]
  show ?thesis by simp
qed

text \<open>
  C25. The table prints each lot's own values, in the order of \<^verbatim>\<open>lots\<close>: reading the
  three numeric cells of each row back as decimals gives the lot's price, its amount and
  its truncated unit price, and the fourth cell is its start time up to the first NUL
  character (the whole start time when it has none).
\<close>

theorem table_rows_print_roundtrip:
  "map (\<lambda>r. map dec_to_int (take 3 (format_row r))) (table_rows ls) =
     map (\<lambda>lot. [sint (buyoutPrice lot), sint (amount lot),
                 sint (buyoutPrice lot) sdiv max 1 (sint (amount lot))]) ls \<and>
   map (\<lambda>r. format_row r ! 3) (table_rows ls) =
     map (\<lambda>lot. takeWhile (\<lambda>c. c \<noteq> CHR 0x00) (startTime lot)) ls"
  by (simp add: table_rows_def format_row_def dec_to_int_int_to_dec price_per_unit_def
      sint_c_div_i64 comp_def)

subsection \<open>Prices above \<^verbatim>\<open>INT64_MAX\<close>\<close>

text \<open>
  C38. A \<^verbatim>\<open>buyoutPrice\<close> that the parser stored as \<^verbatim>\<open>number_unsigned\<close> (a literal
  from \<open>2 ^ 63\<close> on) is accepted by \<^verbatim>\<open>get<int64_t>()\<close>, which keeps its 64 bits: the
  new lot is stored, and its row in the table prints the negative price
  \<open>value - 2 ^ 64\<close>.
\<close>

theorem process_lot_unsigned_price_negative:
  assumes "map_of kvs ''startTime'' = Some (JStr st)" and "st \<notin> knownStartTimes s"
    and "map_of kvs ''itemId'' = Some (JStr iid)" and "map_of kvs ''buyoutPrice'' = Some (JUInt w)"
    and "map_of kvs ''amount'' = Some (JInt a)" and "2 ^ 63 \<le> uint w"
  shows "\<exists>s'. process_lot s (JObj kvs) = Inr s' \<and>
           hd (format_row (last (table_rows (lots s')))) = int_to_dec (uint w - 2 ^ 64)"
proof -
  have "process_lot s (JObj kvs) =
      Inr (s\<lparr>lots := lots s @ [\<lparr>itemId = iid, buyoutPrice = w, amount = ucast a, startTime = st\<rparr>],
             knownStartTimes := insert st (knownStartTimes s)\<rparr>)"
    using process_lot_fresh [OF assms(1-3)] assms(4,5) by (simp add: lot_i64_def lot_i32_def)
  moreover have "sint w = uint w - 2 ^ 64" using assms(6) by (simp add: sint_i64_uint)
  ultimately show ?thesis by (simp add: table_rows_def format_row_def)
qed

theorem process_lot_unsigned_price_negative_witness:
  "(2::int) ^ 63 \<le> uint (2 ^ 63 + 5 :: i64) \<and>
   process_lot session_init (JObj [(''startTime'', JStr ''t9''), (''itemId'', JStr ''y1zq''), (''buyoutPrice'', JUInt (2 ^ 63 + 5)), (''amount'', JInt 1)]) =
     Inr \<lparr>lots = [\<lparr>itemId = ''y1zq'', buyoutPrice = 2 ^ 63 + 5, amount = 1, startTime = ''t9''\<rparr>],
          knownStartTimes = {''t9''}\<rparr> \<and>
   hd (format_row (last (table_rows [\<lparr>itemId = ''y1zq'', buyoutPrice = 2 ^ 63 + 5, amount = 1, startTime = ''t9''\<rparr>]))) =
     int_to_dec (- 9223372036854775803)"
proof -
  have u: "uint (2 ^ 63 + 5 :: i64) = 2 ^ 63 + 5" by simp
  have p: "process_lot session_init (JObj [(''startTime'', JStr ''t9''), (''itemId'', JStr ''y1zq''), (''buyoutPrice'', JUInt (2 ^ 63 + 5)), (''amount'', JInt 1)]) =
     Inr \<lparr>lots = [\<lparr>itemId = ''y1zq'', buyoutPrice = 2 ^ 63 + 5, amount = 1, startTime = ''t9''\<rparr>],
          knownStartTimes = {''t9''}\<rparr>"
    by (simp add: process_lot_def lot_string_def lot_i64_def lot_i32_def session_init_def)
  have "\<exists>s'. process_lot session_init (JObj [(''startTime'', JStr ''t9''), (''itemId'', JStr ''y1zq''), (''buyoutPrice'', JUInt (2 ^ 63 + 5)), (''amount'', JInt 1)]) = Inr s' \<and>
      hd (format_row (last (table_rows (lots s')))) = int_to_dec (uint (2 ^ 63 + 5 :: i64) - 2 ^ 64)"
    by (rule process_lot_unsigned_price_negative) (simp_all add: session_init_def)
  with p u show ?thesis by simp
qed

end
