(* ===== verification/Clock.thy ===== *)
theory Clock
  imports Complex_Main
begin

text \<open>
  The clock of \<^verbatim>\<open>drawUI\<close> (\<^verbatim>\<open>src/main.cpp\<close>, lines 77 and 81):
  \<^verbatim>\<open>ImGui::GetTime()\<close> returns a \<^verbatim>\<open>double\<close>, and
  \<^verbatim>\<open>lastFetchTime = ImGui::GetTime()\<close> stores it into a \<^verbatim>\<open>float\<close>. \<open>to_float\<close> is
  that conversion: IEEE binary32 rounding to nearest, ties to even, on the grid of 24-bit
  significands (\<open>float_ulp\<close> is the spacing of that grid at \<open>x\<close>, subnormals included).
  A clock value is far below the float range, so the overflow of the conversion beyond
  \<^verbatim>\<open>FLT_MAX\<close> (about \<open>3.4 * 10 ^ 38\<close> seconds) is not modelled. The lemmas give the
  rounding error (at most half a \<open>float_ulp\<close>), the size of \<open>float_ulp\<close> for clocks below
  \<open>2 ^ 28\<close> seconds, that the conversion is monotone, and the values that it keeps
  exactly.
\<close>

definition round_even :: "real \<Rightarrow> int" where
  "round_even y =
     (let r = \<lfloor>y\<rfloor> in
      if y - of_int r < 1 / 2 then r
      else if y - of_int r > 1 / 2 then r + 1
      else if even r then r else r + 1)"

definition float_exp :: "real \<Rightarrow> int" where
  "float_exp x = max (- 126) \<lfloor>log 2 \<bar>x\<bar>\<rfloor>"

definition float_ulp :: "real \<Rightarrow> real" where
  "float_ulp x = 2 powr of_int (float_exp x - 23)"

definition to_float :: "real \<Rightarrow> real" where
  "to_float x = (if x = 0 then 0 else of_int (round_even (x / float_ulp x)) * float_ulp x)"

subsection \<open>Rounding error\<close>

lemma round_even_err: "\<bar>of_int (round_even y) - y\<bar> \<le> 1 / 2"
  unfolding round_even_def Let_def
  using of_int_floor_le [of y] real_of_int_floor_add_one_gt [of y]
  by (auto split: if_splits)

lemma round_even_nonneg: "0 \<le> y \<Longrightarrow> 0 \<le> round_even y"
  unfolding round_even_def Let_def by auto

lemma round_even_of_int [simp]: "round_even (of_int n) = n"
  unfolding round_even_def by simp

lemma float_ulp_pos [simp]: "0 < float_ulp x"
  by (simp add: float_ulp_def)

lemma float_ulp_nonzero [simp]: "float_ulp x \<noteq> 0"
  using float_ulp_pos [of x] by linarith

lemma log2_less_pow:
  assumes "0 < x" "x < 2 ^ m"
  shows "log 2 x < real m"
proof -
  have p: "(2::real) powr real m = 2 ^ m" by (rule powr_realpow) simp
  have "log 2 x < real m \<longleftrightarrow> x < 2 powr real m" by (rule log_less_iff) (use assms in auto)
  with assms p show ?thesis by simp
qed

lemma log2_ge_pow:
  assumes "0 < x" "2 ^ m \<le> x"
  shows "real m \<le> log 2 x"
proof -
  have p: "(2::real) powr real m = 2 ^ m" by (rule powr_realpow) simp
  have "real m \<le> log 2 x \<longleftrightarrow> 2 powr real m \<le> x" by (rule le_log_iff) (use assms in auto)
  with assms p show ?thesis by simp
qed

lemma to_float_zero [simp]: "to_float 0 = 0"
  by (simp add: to_float_def)

lemma to_float_nonneg: "0 \<le> x \<Longrightarrow> 0 \<le> to_float x"
  using round_even_nonneg [of "x / float_ulp x"]
  by (simp add: to_float_def less_imp_le)

lemma to_float_err: "\<bar>to_float x - x\<bar> \<le> float_ulp x / 2"
proof (cases "x = 0")
  case True
  then show ?thesis by (simp add: to_float_def less_imp_le)
next
  case False
  let ?u = "float_ulp x"
  have "\<bar>of_int (round_even (x / ?u)) - x / ?u\<bar> \<le> 1 / 2" by (rule round_even_err)
  then have "\<bar>of_int (round_even (x / ?u)) - x / ?u\<bar> * ?u \<le> 1 / 2 * ?u"
    by (rule mult_right_mono) (simp add: less_imp_le)
  moreover have "(of_int (round_even (x / ?u)) - x / ?u) * ?u = to_float x - x"
    using False by (simp add: to_float_def left_diff_distrib)
  then have "\<bar>of_int (round_even (x / ?u)) - x / ?u\<bar> * ?u = \<bar>to_float x - x\<bar>"
    by (metis abs_mult abs_of_pos float_ulp_pos)
  ultimately show ?thesis by simp
qed

lemma float_exp_le:
  assumes "x \<noteq> 0" "\<bar>x\<bar> < 2 ^ Suc n"
  shows "float_exp x \<le> max (- 126) (int n)"
proof -
  have "log 2 \<bar>x\<bar> < real (Suc n)" using assms by (intro log2_less_pow) simp_all
  then have "\<lfloor>log 2 \<bar>x\<bar>\<rfloor> \<le> int n" by linarith
  then show ?thesis by (simp add: float_exp_def)
qed

lemma float_ulp_small: "x \<noteq> 0 \<Longrightarrow> \<bar>x\<bar> < 2 ^ 28 \<Longrightarrow> float_ulp x \<le> 16"
proof -
  assume x: "x \<noteq> 0" "\<bar>x\<bar> < 2 ^ 28"
  then have "float_exp x \<le> 27" using float_exp_le [of x 27] by simp
  then have "float_ulp x \<le> 2 powr of_int (27 - 23 :: int)"
    unfolding float_ulp_def by (intro powr_mono) simp_all
  then show ?thesis by simp
qed

lemma to_float_close: "\<bar>x\<bar> < 2 ^ 28 \<Longrightarrow> \<bar>to_float x - x\<bar> \<le> 8"
  using to_float_err [of x] float_ulp_small [of x] by (cases "x = 0") (simp_all add: to_float_def)

subsection \<open>Monotonicity\<close>

lemma round_even_floor: "\<lfloor>y\<rfloor> \<le> round_even y \<and> round_even y \<le> \<lfloor>y\<rfloor> + 1"
  unfolding round_even_def Let_def by auto

lemma round_even_mono:
  assumes "a \<le> b"
  shows "round_even a \<le> round_even b"
proof (cases "\<lfloor>a\<rfloor> = \<lfloor>b\<rfloor>")
  case True
  then show ?thesis
    using assms unfolding round_even_def Let_def by (auto split: if_splits)
next
  case False
  then have "\<lfloor>a\<rfloor> < \<lfloor>b\<rfloor>" using floor_mono [OF assms] by linarith
  then show ?thesis using round_even_floor [of a] round_even_floor [of b] by linarith
qed

lemma to_float_le_grid:
  assumes "0 < x" "x \<le> of_int n * float_ulp x"
  shows "to_float x \<le> of_int n * float_ulp x"
proof -
  have "x / float_ulp x \<le> of_int n" using assms(2) by (simp add: divide_le_eq)
  then have "round_even (x / float_ulp x) \<le> n" using round_even_mono by fastforce
  then show ?thesis using assms(1) by (simp add: to_float_def)
qed

lemma to_float_ge_grid:
  assumes "0 < x" "of_int n * float_ulp x \<le> x"
  shows "of_int n * float_ulp x \<le> to_float x"
proof -
  have "of_int n \<le> x / float_ulp x" using assms(2) by (simp add: le_divide_eq)
  then have "n \<le> round_even (x / float_ulp x)" using round_even_mono by fastforce
  then show ?thesis using assms(1) by (simp add: to_float_def)
qed

lemma float_exp_mono: "0 < x \<Longrightarrow> x \<le> y \<Longrightarrow> float_exp x \<le> float_exp y"
  unfolding float_exp_def by (intro max.mono floor_mono) simp_all

lemma float_exp_upper: "0 < x \<Longrightarrow> x < 2 powr of_int (float_exp x + 1)"
proof -
  assume x: "0 < x"
  have "of_int \<lfloor>log 2 x\<rfloor> \<le> real_of_int (float_exp x)" using x by (simp add: float_exp_def)
  then have "log 2 x < of_int (float_exp x + 1)"
    using real_of_int_floor_add_one_gt [of "log 2 x"] by linarith
  then show ?thesis using x by (simp add: log_less_iff)
qed

lemma float_exp_lower: "0 < x \<Longrightarrow> - 126 < float_exp x \<Longrightarrow> 2 powr of_int (float_exp x) \<le> x"
proof -
  assume x: "0 < x" and e: "- 126 < float_exp x"
  then have "float_exp x = \<lfloor>log 2 x\<rfloor>" by (simp add: float_exp_def)
  then have "of_int (float_exp x) \<le> log 2 x" by simp
  then show ?thesis using x by (simp add: le_log_iff)
qed

lemma float_ulp_shift: "2 powr of_int (float_exp x + k) = 2 powr of_int (23 + k) * float_ulp x"
  unfolding float_ulp_def by (simp add: powr_add [symmetric] add.commute)

lemma to_float_mono:
  assumes "0 \<le> x" "x \<le> y"
  shows "to_float x \<le> to_float y"
proof (cases "x = 0")
  case True
  then show ?thesis using assms to_float_nonneg [of y] by (simp add: to_float_def)
next
  case False
  with assms have x: "0 < x" and y: "0 < y" by linarith+
  have fe: "float_exp x \<le> float_exp y" using x assms(2) by (rule float_exp_mono)
  show ?thesis
  proof (cases "float_exp x = float_exp y")
    case True
    then have "float_ulp x = float_ulp y" by (simp add: float_ulp_def)
    moreover have "x / float_ulp y \<le> y / float_ulp y" using assms(2) by (intro divide_right_mono) (simp_all add: less_imp_le)
    ultimately show ?thesis using x y round_even_mono by (simp add: to_float_def)
  next
    case False
    with fe have lt: "float_exp x + 1 \<le> float_exp y" by simp
    have "- 126 < float_exp y" using lt by (simp add: float_exp_def)
    have "x < 2 powr of_int (float_exp x + 1)" using x by (rule float_exp_upper)
    then have "x \<le> of_int (2 ^ 24) * float_ulp x"
      using float_ulp_shift [of x 1] by simp
    then have "to_float x \<le> 2 powr of_int (float_exp x + 1)"
      using to_float_le_grid [OF x, of "2 ^ 24"] float_ulp_shift [of x 1] by simp
    also have "\<dots> \<le> 2 powr of_int (float_exp y)" using lt by simp
    also have "\<dots> \<le> to_float y"
    proof -
      have "2 powr of_int (float_exp y) = of_int (2 ^ 23) * float_ulp y"
        using float_ulp_shift [of y 0] by simp
      moreover have "2 powr of_int (float_exp y) \<le> y" using y \<open>- 126 < float_exp y\<close> by (rule float_exp_lower)
      ultimately show ?thesis using to_float_ge_grid [OF y, of "2 ^ 23"] by simp
    qed
    finally show ?thesis .
  qed
qed

subsection \<open>Values kept exactly\<close>

lemma to_float_exact:
  assumes "2 ^ e \<le> x" "x < 2 ^ Suc e" "e \<le> 23" "x * 2 ^ (23 - e) = of_int n"
  shows "to_float x = x"
proof -
  have "(0::real) < 2 ^ e" by simp
  with assms(1) have pos: "0 < x" by linarith
  have "\<lfloor>log 2 x\<rfloor> = int e"
  proof -
    have "real e \<le> log 2 x" using pos assms(1) by (rule log2_ge_pow)
    moreover have "log 2 x < real (Suc e)" using pos assms(2) by (rule log2_less_pow)
    ultimately have "real e \<le> log 2 x" "log 2 x < real e + 1" by simp_all
    then show ?thesis by linarith
  qed
  have fe: "float_exp x = int e"
    using \<open>\<lfloor>log 2 x\<rfloor> = int e\<close> pos by (simp add: float_exp_def)
  have d: "real_of_int (int e - 23) = - real (23 - e)" using assms(3) by (simp add: of_nat_diff)
  have p: "(2::real) powr real (23 - e) = 2 ^ (23 - e)" by (rule powr_realpow) simp
  have u: "float_ulp x = 1 / 2 ^ (23 - e)"
    unfolding float_ulp_def fe d powr_minus_divide p ..
  have q: "x / float_ulp x = of_int n" using assms(4) by (simp add: u)
  have "to_float x = of_int n * float_ulp x" using pos by (simp add: to_float_def q)
  also have "\<dots> = x" unfolding u assms(4) [symmetric] by simp
  finally show ?thesis .
qed


end
