(* ===== verification/Scheduler.thy ===== *)
theory Scheduler
  imports Complex_Main Fetcher Clock
begin

text \<open>
  The refresh policy of \<^verbatim>\<open>drawUI\<close> (\<^verbatim>\<open>src/main.cpp\<close>, lines 75--89) and the frame
  loop of \<^verbatim>\<open>main\<close> (lines 136--151). The two function-local statics of
  \<^verbatim>\<open>drawUI\<close> are the record \<open>ui_state\<close>; a frame's inputs are the value of
  \<^verbatim>\<open>ImGui::GetTime()\<close> (constant during a frame), whether the refresh button and the
  auto-refresh checkbox were clicked, and what the live endpoint answers to each of the
  frame's two possible cycles: the timed one (line 80) and the manual one (line 86) query
  the server at different moments, so each has its own \<open>server\<close> function.
  A frame runs the timed refresh (lines 79--82), then the manual one (85--87), then the
  checkbox (89); every \<^verbatim>\<open>fetchLots\<close> call runs to its end before the next statement,
  so the fetch cycles of a frame form a sequence. The clock is a real number (the
  \<^verbatim>\<open>double\<close> of \<^verbatim>\<open>GetTime()\<close>); line 81 stores it into the \<^verbatim>\<open>float\<close>
  \<^verbatim>\<open>lastFetchTime\<close>, which is \<open>to_float\<close> of theory \<open>Clock\<close>. The subtraction of
  line 79 is taken exactly: the \<^verbatim>\<open>double\<close> rounding of that difference only matters
  when it lies within a few \<open>10 ^ -15\<close> seconds of 10.
\<close>

record ui_state =
  autoRefresh :: bool
  lastFetchTime :: real

definition ui_init :: ui_state where
  "ui_init = \<lparr>autoRefresh = False, lastFetchTime = 0\<rparr>"

record frame_input =
  now :: real
  refresh_clicked :: bool
  toggle_clicked :: bool
  endpoint_timed :: server
  endpoint_click :: server

type_synonym app_state = "ui_state \<times> session"

text \<open>The fetch cycles a frame ran (the requests of each) and the state after it.\<close>

type_synonym frame_result = "request list list \<times> app_state result"

definition app_init :: app_state where
  "app_init = (ui_init, session_init)"

text \<open>Line 79: the timed refresh is due.\<close>

definition auto_refresh_due :: "ui_state \<Rightarrow> real \<Rightarrow> bool" where
  "auto_refresh_due ui t \<longleftrightarrow> autoRefresh ui \<and> t - lastFetchTime ui > 10"

text \<open>Lines 79--82: line 81 stores the clock rounded to \<^verbatim>\<open>float\<close>.\<close>

definition auto_refresh_step ::
  "string \<Rightarrow> string \<Rightarrow> string \<Rightarrow> frame_input \<Rightarrow> app_state \<Rightarrow> frame_result" where
  "auto_refresh_step region item apiKey inp st =
     (case st of (ui, s) \<Rightarrow>
        if auto_refresh_due ui (now inp) then
          (case fetchLots (endpoint_timed inp) region item apiKey s of
             (reqs, Inl e) \<Rightarrow> ([reqs], Inl e)
           | (reqs, Inr s') \<Rightarrow> ([reqs], Inr (ui\<lparr>lastFetchTime := to_float (now inp)\<rparr>, s')))
        else ([], Inr (ui, s)))"

text \<open>Lines 85--87: the button calls \<^verbatim>\<open>fetchLots\<close> and nothing else.\<close>

definition manual_refresh_step ::
  "string \<Rightarrow> string \<Rightarrow> string \<Rightarrow> frame_input \<Rightarrow> app_state \<Rightarrow> frame_result" where
  "manual_refresh_step region item apiKey inp st =
     (case st of (ui, s) \<Rightarrow>
        if refresh_clicked inp then
          (case fetchLots (endpoint_click inp) region item apiKey s of
             (reqs, Inl e) \<Rightarrow> ([reqs], Inl e)
           | (reqs, Inr s') \<Rightarrow> ([reqs], Inr (ui, s')))
        else ([], Inr (ui, s)))"

text \<open>Line 89: a click on the checkbox flips \<^verbatim>\<open>autoRefresh\<close>.\<close>

definition checkbox_step :: "frame_input \<Rightarrow> ui_state \<Rightarrow> ui_state" where
  "checkbox_step inp ui =
     (if toggle_clicked inp then ui\<lparr>autoRefresh := \<not> autoRefresh ui\<rparr> else ui)"

text \<open>Lines 75--89, in the order of the statements; an exception ends the frame.\<close>

definition drawUI :: "string \<Rightarrow> string \<Rightarrow> string \<Rightarrow> frame_input \<Rightarrow> app_state \<Rightarrow> frame_result" where
  "drawUI region item apiKey inp st =
     (case auto_refresh_step region item apiKey inp st of
        (c1, Inl e) \<Rightarrow> (c1, Inl e)
      | (c1, Inr st1) \<Rightarrow>
          (case manual_refresh_step region item apiKey inp st1 of
             (c2, Inl e) \<Rightarrow> (c1 @ c2, Inl e)
           | (c2, Inr (ui2, s2)) \<Rightarrow> (c1 @ c2, Inr (checkbox_step inp ui2, s2))))"

text \<open>Lines 136--151: one \<^verbatim>\<open>drawUI\<close> per frame until the window closes.\<close>

fun run_frames ::
  "string \<Rightarrow> string \<Rightarrow> string \<Rightarrow> frame_input list \<Rightarrow> app_state \<Rightarrow> frame_result" where
  "run_frames region item apiKey [] st = ([], Inr st)"
| "run_frames region item apiKey (inp # inps) st =
     (case drawUI region item apiKey inp st of
        (c, Inl e) \<Rightarrow> (c, Inl e)
      | (c, Inr st') \<Rightarrow>
          (case run_frames region item apiKey inps st' of (c', r) \<Rightarrow> (c @ c', r)))"

text \<open>
  The states the program can reach, each with the clock of the frame that produced it:
  \<^verbatim>\<open>ImGui::GetTime()\<close> never decreases from one frame to the next.
\<close>

inductive reachable :: "string \<Rightarrow> string \<Rightarrow> string \<Rightarrow> app_state \<Rightarrow> real \<Rightarrow> bool" where
  start: "reachable region item apiKey app_init 0"
| frame: "reachable region item apiKey st t \<Longrightarrow> t \<le> now inp \<Longrightarrow>
     drawUI region item apiKey inp st = (c, Inr st') \<Longrightarrow>
     reachable region item apiKey st' (now inp)"

definition app_inv :: "app_state \<Rightarrow> real \<Rightarrow> bool" where
  "app_inv st t \<longleftrightarrow>
     session_inv (snd st) \<and> 0 \<le> t \<and> 0 \<le> lastFetchTime (fst st) \<and> lastFetchTime (fst st) \<le> to_float t"

text \<open>
  A session \<open>s'\<close> is a refresh of \<open>s\<close> when it forgot no start time and its table
  holds no lot whose start time \<open>s\<close> already knew.
\<close>

definition refreshed :: "session \<Rightarrow> session \<Rightarrow> bool" where
  "refreshed s s' \<longleftrightarrow>
     knownStartTimes s \<subseteq> knownStartTimes s' \<and>
     set (map startTime (lots s')) \<inter> knownStartTimes s = {}"

subsection \<open>One frame\<close>

lemma manual_refresh_step_idle [simp]:
  "\<not> refresh_clicked inp \<Longrightarrow> manual_refresh_step region item apiKey inp st = ([], Inr st)"
  by (simp add: manual_refresh_step_def split: prod.split)

lemma auto_refresh_step_idle [simp]:
  "\<not> auto_refresh_due ui (now inp) \<Longrightarrow> auto_refresh_step region item apiKey inp (ui, s) = ([], Inr (ui, s))"
  by (simp add: auto_refresh_step_def)

lemmas frame_defs = drawUI_def auto_refresh_step_def manual_refresh_step_def checkbox_step_def

lemma drawUI_timer:
  "drawUI region item apiKey inp (ui, s) = (c, Inr (ui', s')) \<Longrightarrow>
   lastFetchTime ui' = (if auto_refresh_due ui (now inp) then to_float (now inp) else lastFetchTime ui)"
  by (auto simp: frame_defs split: prod.splits sum.splits if_splits)

text \<open>
  C13. With auto-refresh off and no click on the button, a frame fetches nothing, however
  long ago the last fetch was; only the checkbox can change the state.
\<close>

theorem drawUI_gated:
  "\<not> autoRefresh ui \<Longrightarrow> \<not> refresh_clicked inp \<Longrightarrow>
   drawUI region item apiKey inp (ui, s) = ([], Inr (checkbox_step inp ui, s))"
  by (simp add: drawUI_def auto_refresh_due_def)

theorem drawUI_gated_witness:
  "\<not> autoRefresh ui_init \<and>
   drawUI ''eu'' ''y1zq'' ''key''
     \<lparr>now = 100000, refresh_clicked = False, toggle_clicked = True, endpoint_timed = example_endpoint, endpoint_click = example_endpoint\<rparr>
     (ui_init, session_init) =
   ([], Inr (\<lparr>autoRefresh = True, lastFetchTime = 0\<rparr>, session_init))"
  using drawUI_gated [of ui_init "\<lparr>now = 100000, refresh_clicked = False, toggle_clicked = True,
      endpoint_timed = example_endpoint, endpoint_click = example_endpoint\<rparr>" "''eu''" "''y1zq''" "''key''" session_init]
  by (simp add: ui_init_def checkbox_step_def)

text \<open>
  C14. A frame whose timed refresh is due and that ends normally leaves in
  \<^verbatim>\<open>lastFetchTime\<close> the frame's clock rounded to \<^verbatim>\<open>float\<close>, whatever the button
  and the checkbox did; so the next timed cycle cannot be due before the clock has
  advanced by 10 seconds less half a float step of the clock (the rounding may move
  the timer back by that much).
\<close>

theorem drawUI_timed_spacing:
  assumes "auto_refresh_due ui (now inp)"
    and "drawUI region item apiKey inp (ui, s) = (c, Inr (ui', s'))"
    and "auto_refresh_due ui' t"
  shows "lastFetchTime ui' = to_float (now inp) \<and> now inp + 10 - float_ulp (now inp) / 2 < t"
proof -
  have l: "lastFetchTime ui' = to_float (now inp)"
    using drawUI_timer [OF assms(2)] assms(1) by simp
  have "now inp - float_ulp (now inp) / 2 \<le> to_float (now inp)"
    using to_float_err [of "now inp"] by linarith
  with l assms(3) show ?thesis by (auto simp: auto_refresh_due_def)
qed

theorem drawUI_timed_spacing_witness:
  "auto_refresh_due \<lparr>autoRefresh = True, lastFetchTime = 0\<rparr> 10.5 \<and>
   drawUI ''eu'' ''y1zq'' ''key''
     \<lparr>now = 10.5, refresh_clicked = False, toggle_clicked = False, endpoint_timed = example_endpoint, endpoint_click = example_endpoint\<rparr>
     (\<lparr>autoRefresh = True, lastFetchTime = 0\<rparr>, session_init) =
   ([[lot_request ''eu'' ''y1zq'' ''key'' 0]],
    Inr (\<lparr>autoRefresh = True, lastFetchTime = 10.5\<rparr>, example_session)) \<and>
   auto_refresh_due \<lparr>autoRefresh = True, lastFetchTime = 10.5\<rparr> 21 \<and>
   10.5 + 10 - float_ulp 10.5 / 2 < (21::real)"
proof -
  have f: "to_float (21 / 2) = 21 / 2" by (rule to_float_exact [of 3 _ 11010048]) simp_all
  have run: "drawUI ''eu'' ''y1zq'' ''key''
     \<lparr>now = 10.5, refresh_clicked = False, toggle_clicked = False, endpoint_timed = example_endpoint, endpoint_click = example_endpoint\<rparr>
     (\<lparr>autoRefresh = True, lastFetchTime = 0\<rparr>, session_init) =
   ([[lot_request ''eu'' ''y1zq'' ''key'' 0]],
    Inr (\<lparr>autoRefresh = True, lastFetchTime = 10.5\<rparr>, example_session))"
    by (simp add: frame_defs auto_refresh_due_def example_cycle f)
  have "auto_refresh_due \<lparr>autoRefresh = True, lastFetchTime = 0\<rparr> 10.5"
    "auto_refresh_due \<lparr>autoRefresh = True, lastFetchTime = 10.5\<rparr> 21"
    by (simp_all add: auto_refresh_due_def)
  with drawUI_timed_spacing [OF _ run] run show ?thesis by simp
qed

text \<open>
  C15. A click on the refresh button runs a fetch cycle but leaves
  \<^verbatim>\<open>lastFetchTime\<close> as it was: a manual refresh does not restart the 10-second
  timer.
\<close>

theorem drawUI_manual_keeps_timer:
  "refresh_clicked inp \<Longrightarrow> \<not> auto_refresh_due ui (now inp) \<Longrightarrow>
   drawUI region item apiKey inp (ui, s) = (cs, Inr (ui', s')) \<Longrightarrow>
   lastFetchTime ui' = lastFetchTime ui \<and> length cs = 1"
  by (auto simp: frame_defs split: prod.splits sum.splits if_splits)

theorem drawUI_manual_keeps_timer_witness:
  "refresh_clicked \<lparr>now = 105, refresh_clicked = True, toggle_clicked = False, endpoint_timed = example_endpoint, endpoint_click = example_endpoint\<rparr> \<and>
   \<not> auto_refresh_due \<lparr>autoRefresh = True, lastFetchTime = 100\<rparr> 105 \<and>
   drawUI ''eu'' ''y1zq'' ''key''
     \<lparr>now = 105, refresh_clicked = True, toggle_clicked = False, endpoint_timed = example_endpoint, endpoint_click = example_endpoint\<rparr>
     (\<lparr>autoRefresh = True, lastFetchTime = 100\<rparr>, session_init) =
   ([[lot_request ''eu'' ''y1zq'' ''key'' 0]], Inr (\<lparr>autoRefresh = True, lastFetchTime = 100\<rparr>, example_session)) \<and>
   lastFetchTime \<lparr>autoRefresh = True, lastFetchTime = 100::real\<rparr> = 100"
proof -
  have run: "drawUI ''eu'' ''y1zq'' ''key''
     \<lparr>now = 105, refresh_clicked = True, toggle_clicked = False, endpoint_timed = example_endpoint, endpoint_click = example_endpoint\<rparr>
     (\<lparr>autoRefresh = True, lastFetchTime = 100\<rparr>, session_init) =
   ([[lot_request ''eu'' ''y1zq'' ''key'' 0]], Inr (\<lparr>autoRefresh = True, lastFetchTime = 100\<rparr>, example_session))"
    by (simp add: frame_defs auto_refresh_due_def example_cycle)
  have "\<not> auto_refresh_due \<lparr>autoRefresh = True, lastFetchTime = 100\<rparr> 105"
    by (simp add: auto_refresh_due_def)
  with drawUI_manual_keeps_timer [OF _ _ run] run show ?thesis by simp
qed

text \<open>
  C16. When the timed refresh is due in the frame in which the button is clicked, the
  frame runs two cycles, one after the other. If the server gives the second cycle the
  same answers as the first (no lot was posted in between), the second finds every
  start time known: the table of that frame is empty.
\<close>

theorem drawUI_double_fetch_empty:
  assumes due: "auto_refresh_due ui (now inp)" and clicked: "refresh_clicked inp"
    and same: "endpoint_click inp = endpoint_timed inp"
    and run: "drawUI region item apiKey inp (ui, s) = (cs, Inr (ui', s'))"
  shows "lots s' = [] \<and> (\<exists>reqs. cs = [reqs, reqs])"
proof -
  obtain reqs r where f1: "fetchLots (endpoint_timed inp) region item apiKey s = (reqs, r)"
    by fastforce
  show ?thesis
  proof (cases r)
    case (Inl e)
    with run due f1 show ?thesis by (simp add: drawUI_def auto_refresh_step_def)
  next
    case (Inr s1)
    with f1 have "fetchLots (endpoint_click inp) region item apiKey s1 = (reqs, Inr (s1\<lparr>lots := []\<rparr>))"
      by (simp add: same fetchLots_replay)
    with run due clicked f1 Inr show ?thesis
      by (auto simp: frame_defs split: if_splits)
  qed
qed

theorem drawUI_double_fetch_empty_witness:
  "auto_refresh_due \<lparr>autoRefresh = True, lastFetchTime = 0\<rparr> 20 \<and>
   drawUI ''eu'' ''y1zq'' ''key''
     \<lparr>now = 20, refresh_clicked = True, toggle_clicked = False, endpoint_timed = example_endpoint, endpoint_click = example_endpoint\<rparr>
     (\<lparr>autoRefresh = True, lastFetchTime = 0\<rparr>, session_init) =
   ([[lot_request ''eu'' ''y1zq'' ''key'' 0], [lot_request ''eu'' ''y1zq'' ''key'' 0]],
    Inr (\<lparr>autoRefresh = True, lastFetchTime = 20\<rparr>, example_session\<lparr>lots := []\<rparr>)) \<and>
   lots (example_session\<lparr>lots := []\<rparr>) = []"
proof -
  have due: "auto_refresh_due \<lparr>autoRefresh = True, lastFetchTime = 0\<rparr> 20"
    by (simp add: auto_refresh_due_def)
  have run: "drawUI ''eu'' ''y1zq'' ''key''
     \<lparr>now = 20, refresh_clicked = True, toggle_clicked = False, endpoint_timed = example_endpoint, endpoint_click = example_endpoint\<rparr>
     (\<lparr>autoRefresh = True, lastFetchTime = 0\<rparr>, session_init) =
   ([[lot_request ''eu'' ''y1zq'' ''key'' 0], [lot_request ''eu'' ''y1zq'' ''key'' 0]],
    Inr (\<lparr>autoRefresh = True, lastFetchTime = 20\<rparr>, example_session\<lparr>lots := []\<rparr>))"
  proof -
    have f: "to_float 20 = 20" by (rule to_float_exact [of 4 _ 10485760]) simp_all
    show ?thesis
      using due by (simp add: frame_defs example_cycle fetchLots_replay [OF example_cycle] f)
  qed
  from drawUI_double_fetch_empty [OF _ _ _ run] run due show ?thesis
    by (simp add: auto_refresh_due_def)
qed

subsection \<open>Reachable states\<close>

lemma drawUI_session_inv:
  "session_inv s \<Longrightarrow> drawUI region item apiKey inp (ui, s) = (c, Inr (ui', s')) \<Longrightarrow> session_inv s'"
  unfolding frame_defs fetchLots_def
  by (auto split: prod.splits sum.splits if_splits dest!: fetch_loop_inv)

lemma drawUI_app_inv:
  assumes "app_inv (ui, s) t" "t \<le> now inp" "drawUI region item apiKey inp (ui, s) = (c, Inr (ui', s'))"
  shows "app_inv (ui', s') (now inp)"
proof -
  from assms(1) have inv: "session_inv s" "0 \<le> t" "0 \<le> lastFetchTime ui" "lastFetchTime ui \<le> to_float t"
    by (simp_all add: app_inv_def)
  have n: "0 \<le> now inp" using inv(2) assms(2) by linarith
  have "to_float t \<le> to_float (now inp)" using inv(2) assms(2) by (rule to_float_mono)
  then have "0 \<le> lastFetchTime ui' \<and> lastFetchTime ui' \<le> to_float (now inp)"
    using drawUI_timer [OF assms(3)] inv to_float_nonneg [OF n] by auto
  with drawUI_session_inv [OF inv(1) assms(3)] n show ?thesis by (simp add: app_inv_def)
qed

text \<open>
  C17. In every state the program reaches, the lots on display have distinct start times
  that are all known, and \<^verbatim>\<open>lastFetchTime\<close> lies between 0 and the current clock
  rounded to \<^verbatim>\<open>float\<close> (the rounding of line 81 may put it above the exact clock,
  never above the clock's own rounding).
\<close>

theorem reachable_app_inv:
  "reachable region item apiKey st t \<Longrightarrow> app_inv st t"
proof (induction rule: reachable.induct)
  case start
  show ?case by (simp add: app_inv_def app_init_def ui_init_def session_init_def session_inv_def)
next
  case (frame st t inp c st')
  then show ?case by (metis drawUI_app_inv prod.collapse)
qed

lemma reachable_session_inv:
  assumes "reachable region item apiKey st t"
  shows "session_inv (snd st)"
proof -
  from assms have "app_inv st t"
  proof induction
    case start
    show ?case by (simp add: app_inv_def app_init_def ui_init_def session_init_def session_inv_def)
  next
    case (frame st t inp c st')
    then show ?case by (metis drawUI_app_inv prod.collapse)
  qed
  then show ?thesis by (simp add: app_inv_def)
qed

theorem reachable_app_inv_witness:
  "reachable ''eu'' ''y1zq'' ''key'' (ui_init, example_session) 3 \<and> app_inv (ui_init, example_session) 3"
proof -
  have "drawUI ''eu'' ''y1zq'' ''key''
     \<lparr>now = 3, refresh_clicked = True, toggle_clicked = False, endpoint_timed = example_endpoint, endpoint_click = example_endpoint\<rparr> app_init =
     ([[lot_request ''eu'' ''y1zq'' ''key'' 0]], Inr (ui_init, example_session))"
    by (simp add: frame_defs app_init_def ui_init_def auto_refresh_due_def example_cycle)
  then have r: "reachable ''eu'' ''y1zq'' ''key'' (ui_init, example_session) 3"
    using reachable.frame [OF reachable.start, of 
      "\<lparr>now = 3, refresh_clicked = True, toggle_clicked = False, endpoint_timed = example_endpoint, endpoint_click = example_endpoint\<rparr>"] by simp
  with reachable_app_inv [OF r] show ?thesis by simp
qed


subsection \<open>Where the requests go\<close>



lemma drawUI_targets:
  "drawUI region item apiKey inp st = (css, r) \<Longrightarrow>
   list_all (list_all (\<lambda>req. \<exists>off. req = lot_request region item apiKey off)) css"
  unfolding drawUI_def auto_refresh_step_def manual_refresh_step_def fetchLots_def
  by (auto split: prod.splits sum.splits if_splits dest: fetch_loop_targets)

lemma run_frames_targets:
  "run_frames region item apiKey frames st = (css, r) \<Longrightarrow>
   list_all (list_all (\<lambda>req. \<exists>off. req = lot_request region item apiKey off)) css"
proof (induction frames arbitrary: st css r)
  case Nil
  then show ?case by simp
next
  case (Cons inp frames)
  then show ?case
    by (auto split: prod.splits sum.splits dest: drawUI_targets)
qed



subsection \<open>The timed refresh is live\<close>

text \<open>Every fetch cycle sends at least its first request; a frame without a due refresh,
  a click or a toggle changes nothing.\<close>

lemma fetchLots_reqs_ne: "fetchLots srv region item apiKey s = (reqs, r) \<Longrightarrow> reqs \<noteq> []"
  unfolding fetchLots_def
  by (subst (asm) fetch_loop.simps) (auto simp: Let_def split: sum.splits prod.splits if_splits)

lemma drawUI_fetches:
  "auto_refresh_due ui (now inp) \<or> refresh_clicked inp \<Longrightarrow>
   concat (fst (drawUI region item apiKey inp (ui, s))) \<noteq> []"
  by (auto simp: frame_defs split: prod.splits sum.splits dest: fetchLots_reqs_ne)

lemma drawUI_idle:
  "\<not> auto_refresh_due ui (now inp) \<Longrightarrow> \<not> refresh_clicked inp \<Longrightarrow> \<not> toggle_clicked inp \<Longrightarrow>
   drawUI region item apiKey inp (ui, s) = ([], Inr (ui, s))"
  by (simp add: drawUI_def checkbox_step_def)

text \<open>
  C30. While auto-refresh is on and nobody touches the checkbox, a run of frames in which
  the clock passes \<^verbatim>\<open>lastFetchTime + 10\<close> sends at least one request: the timed
  refresh cannot be postponed for ever (an exception ends the run only after its cycle
  sent requests).
\<close>

theorem run_frames_auto_refresh_live:
  assumes "autoRefresh ui" and "\<forall>inp \<in> set frames. \<not> toggle_clicked inp"
    and "\<exists>inp \<in> set frames. lastFetchTime ui + 10 < now inp"
  shows "concat (fst (run_frames region item apiKey frames (ui, s))) \<noteq> []"
  using assms
proof (induction frames arbitrary: s)
  case Nil
  then show ?case by simp
next
  case (Cons inp inps)
  show ?case
  proof (cases "auto_refresh_due ui (now inp) \<or> refresh_clicked inp")
    case True
    then have "concat (fst (drawUI region item apiKey inp (ui, s))) \<noteq> []"
      by (rule drawUI_fetches)
    then show ?thesis by (auto split: prod.split sum.split)
  next
    case False
    with Cons.prems(2) have idle: "drawUI region item apiKey inp (ui, s) = ([], Inr (ui, s))"
      by (simp add: drawUI_idle)
    from False Cons.prems(1) Cons.prems(3) have "\<exists>inp \<in> set inps. lastFetchTime ui + 10 < now inp"
      by (auto simp: auto_refresh_due_def)
    with Cons.IH Cons.prems(1,2)
    have "concat (fst (run_frames region item apiKey inps (ui, s))) \<noteq> []" by simp
    with idle show ?thesis by (simp split: prod.split)
  qed
qed

theorem run_frames_auto_refresh_live_witness:
  "autoRefresh \<lparr>autoRefresh = True, lastFetchTime = 0\<rparr> \<and>
   \<not> toggle_clicked \<lparr>now = 5, refresh_clicked = False, toggle_clicked = False, endpoint_timed = example_endpoint, endpoint_click = example_endpoint\<rparr> \<and>
   \<not> toggle_clicked \<lparr>now = 12, refresh_clicked = False, toggle_clicked = False, endpoint_timed = example_endpoint, endpoint_click = example_endpoint\<rparr> \<and>
   lastFetchTime \<lparr>autoRefresh = True, lastFetchTime = 0\<rparr> + 10 <
     now \<lparr>now = 12, refresh_clicked = False, toggle_clicked = False, endpoint_timed = example_endpoint, endpoint_click = example_endpoint\<rparr> \<and>
   concat (fst (run_frames ''eu'' ''y1zq'' ''key''
     [\<lparr>now = 5, refresh_clicked = False, toggle_clicked = False, endpoint_timed = example_endpoint, endpoint_click = example_endpoint\<rparr>,
      \<lparr>now = 12, refresh_clicked = False, toggle_clicked = False, endpoint_timed = example_endpoint, endpoint_click = example_endpoint\<rparr>]
     (\<lparr>autoRefresh = True, lastFetchTime = 0\<rparr>, session_init))) = [lot_request ''eu'' ''y1zq'' ''key'' 0]"
proof -
  have "concat (fst (run_frames ''eu'' ''y1zq'' ''key''
     [\<lparr>now = 5, refresh_clicked = False, toggle_clicked = False, endpoint_timed = example_endpoint, endpoint_click = example_endpoint\<rparr>,
      \<lparr>now = 12, refresh_clicked = False, toggle_clicked = False, endpoint_timed = example_endpoint, endpoint_click = example_endpoint\<rparr>]
     (\<lparr>autoRefresh = True, lastFetchTime = 0\<rparr>, session_init))) = [lot_request ''eu'' ''y1zq'' ''key'' 0]"
    by (simp add: frame_defs auto_refresh_due_def example_cycle)
  with run_frames_auto_refresh_live [of "\<lparr>autoRefresh = True, lastFetchTime = 0\<rparr>"
      "[\<lparr>now = 5, refresh_clicked = False, toggle_clicked = False, endpoint_timed = example_endpoint, endpoint_click = example_endpoint\<rparr>,
        \<lparr>now = 12, refresh_clicked = False, toggle_clicked = False, endpoint_timed = example_endpoint, endpoint_click = example_endpoint\<rparr>]"
      "''eu''" "''y1zq''" "''key''" session_init]
  show ?thesis by simp
qed

text \<open>
  C31. After a frame that began with auto-refresh on, the last fetch is at most 10 seconds
  old: either the frame ran the timed cycle and reset the timer, or the timer was not yet
  due. This holds with the \<^verbatim>\<open>float\<close> timer for clocks below \<open>2 ^ 28\<close> seconds
  (about 8.5 years), where the rounding of line 81 loses at most 8 seconds.
\<close>

theorem drawUI_refresh_bound:
  assumes "autoRefresh ui" and "\<bar>now inp\<bar> < 2 ^ 28"
    and "drawUI region item apiKey inp (ui, s) = (c, Inr (ui', s'))"
  shows "now inp - lastFetchTime ui' \<le> 10"
  using drawUI_timer [OF assms(3)] to_float_close [OF assms(2)] assms(1)
  by (auto simp: auto_refresh_due_def split: if_splits)

theorem drawUI_refresh_bound_witness:
  "autoRefresh \<lparr>autoRefresh = True, lastFetchTime = 0\<rparr> \<and>
   drawUI ''eu'' ''y1zq'' ''key''
     \<lparr>now = 30, refresh_clicked = False, toggle_clicked = True, endpoint_timed = example_endpoint, endpoint_click = example_endpoint\<rparr>
     (\<lparr>autoRefresh = True, lastFetchTime = 0\<rparr>, session_init) =
   ([[lot_request ''eu'' ''y1zq'' ''key'' 0]],
    Inr (\<lparr>autoRefresh = False, lastFetchTime = 30\<rparr>, example_session)) \<and>
   \<bar>30::real\<bar> < 2 ^ 28 \<and> (30::real) - 30 \<le> 10"
proof -
  have f: "to_float 30 = 30" by (rule to_float_exact [of 4 _ 15728640]) simp_all
  have run: "drawUI ''eu'' ''y1zq'' ''key''
     \<lparr>now = 30, refresh_clicked = False, toggle_clicked = True, endpoint_timed = example_endpoint, endpoint_click = example_endpoint\<rparr>
     (\<lparr>autoRefresh = True, lastFetchTime = 0\<rparr>, session_init) =
   ([[lot_request ''eu'' ''y1zq'' ''key'' 0]],
    Inr (\<lparr>autoRefresh = False, lastFetchTime = 30\<rparr>, example_session))"
    by (simp add: frame_defs auto_refresh_due_def example_cycle f)
  from drawUI_refresh_bound [OF _ _ run] run show ?thesis by simp
qed

subsection \<open>A lot is shown by one cycle only\<close>

lemma refreshed_trans: "refreshed s1 s2 \<Longrightarrow> refreshed s2 s3 \<Longrightarrow> refreshed s1 s3"
  unfolding refreshed_def by blast

lemma fetchLots_refreshed:
  "fetchLots srv region item apiKey s = (reqs, Inr s') \<Longrightarrow> refreshed s s'"
  unfolding fetchLots_def
  by (drule fetch_loop_extends) (auto simp: session_extends_def refreshed_def)

lemma drawUI_refreshed:
  "drawUI region item apiKey inp (ui, s) = (c, Inr (ui', s')) \<Longrightarrow>
   (c = [] \<and> s' = s) \<or> (c \<noteq> [] \<and> refreshed s s')"
  unfolding frame_defs
  by (auto split: prod.splits sum.splits if_splits dest: fetchLots_refreshed intro: refreshed_trans)

lemma run_frames_refreshed:
  "run_frames region item apiKey frames st = (cs, Inr st') \<Longrightarrow>
   (cs = [] \<and> snd st' = snd st) \<or> (cs \<noteq> [] \<and> refreshed (snd st) (snd st'))"
proof (induction frames arbitrary: st cs)
  case Nil
  then show ?case by simp
next
  case (Cons inp inps)
  obtain ui s where st: "st = (ui, s)" by fastforce
  from Cons.prems obtain c st1 cs' where
    d: "drawUI region item apiKey inp st = (c, Inr st1)" and
    r: "run_frames region item apiKey inps st1 = (cs', Inr st')" and cs: "cs = c @ cs'"
    by (auto split: prod.splits sum.splits)
  obtain ui1 s1 where st1: "st1 = (ui1, s1)" by fastforce
  from d st st1 have "(c = [] \<and> s1 = s) \<or> (c \<noteq> [] \<and> refreshed s s1)"
    by (simp add: drawUI_refreshed)
  with Cons.IH [OF r] st st1 cs show ?case
    by (auto intro: refreshed_trans)
qed

text \<open>
  C32. Over any run of frames that ends normally, either no fetch cycle ran and the
  session is unchanged, or \<^verbatim>\<open>knownStartTimes\<close> only grew and the table at the end
  holds no lot whose start time was known at the start of the run. So a lot that the
  table showed (its start time is then known, C17) never appears in it again after a
  later cycle, even when the endpoint still lists it.
\<close>

theorem run_frames_table_fresh:
  assumes "run_frames region item apiKey frames st = (cs, Inr st')"
  shows "(cs = [] \<and> snd st' = snd st) \<or>
         (knownStartTimes (snd st) \<subseteq> knownStartTimes (snd st') \<and>
          set (map startTime (lots (snd st'))) \<inter> knownStartTimes (snd st) = {})"
  using run_frames_refreshed [OF assms] by (auto simp: refreshed_def)

theorem run_frames_table_fresh_witness:
  "run_frames ''eu'' ''y1zq'' ''key''
     [\<lparr>now = 20, refresh_clicked = True, toggle_clicked = False,
       endpoint_timed = (\<lambda>_. page_response [example_lot ''t2'', example_lot ''t3'']), endpoint_click = (\<lambda>_. page_response [example_lot ''t2'', example_lot ''t3''])\<rparr>]
     (ui_init, example_session) =
   ([[lot_request ''eu'' ''y1zq'' ''key'' 0]],
    Inr (ui_init, \<lparr>lots = [\<lparr>itemId = ''y1zq'', buyoutPrice = 1000, amount = 0, startTime = ''t3''\<rparr>],
                   knownStartTimes = {''t3'', ''t2'', ''t1''}\<rparr>)) \<and>
   set (map startTime [\<lparr>itemId = ''y1zq'', buyoutPrice = 1000, amount = 0, startTime = ''t3''\<rparr>]) \<inter>
     knownStartTimes example_session = {}"
proof -
  have run: "run_frames ''eu'' ''y1zq'' ''key''
     [\<lparr>now = 20, refresh_clicked = True, toggle_clicked = False,
       endpoint_timed = (\<lambda>_. page_response [example_lot ''t2'', example_lot ''t3'']), endpoint_click = (\<lambda>_. page_response [example_lot ''t2'', example_lot ''t3''])\<rparr>]
     (ui_init, example_session) =
   ([[lot_request ''eu'' ''y1zq'' ''key'' 0]],
    Inr (ui_init, \<lparr>lots = [\<lparr>itemId = ''y1zq'', buyoutPrice = 1000, amount = 0, startTime = ''t3''\<rparr>],
                   knownStartTimes = {''t3'', ''t2'', ''t1''}\<rparr>))"
    by (simp add: frame_defs ui_init_def auto_refresh_due_def fetchLots_def fetch_loop.simps
        fetch_page_def Let_def page_response_def example_session_def example_lot_def
        process_lot_def lot_string_def lot_i64_def lot_i32_def limit_def)
  from run_frames_table_fresh [OF run] run show ?thesis
    by (auto simp: example_session_def)
qed

subsection \<open>The first timed refresh\<close>

lemma run_frames_before_deadline:
  "lastFetchTime ui = 0 \<Longrightarrow> \<forall>inp \<in> set frames. \<not> refresh_clicked inp \<and> now inp \<le> 10 \<Longrightarrow>
   \<exists>ui'. run_frames region item apiKey frames (ui, s) = ([], Inr (ui', s)) \<and> lastFetchTime ui' = 0"
proof (induction frames arbitrary: ui)
  case Nil
  then show ?case by simp
next
  case (Cons inp inps)
  then have "drawUI region item apiKey inp (ui, s) = ([], Inr (checkbox_step inp ui, s))"
    by (simp add: drawUI_def auto_refresh_due_def)
  moreover have "lastFetchTime (checkbox_step inp ui) = 0"
    using Cons.prems(1) by (simp add: checkbox_step_def)
  ultimately show ?case
    using Cons.IH [of "checkbox_step inp ui"] Cons.prems(2) by auto
qed

text \<open>
  C36. \<^verbatim>\<open>lastFetchTime\<close> starts at 0, not at a ``never fetched'' value: without a click,
  no request is sent in the first 10 seconds of \<^verbatim>\<open>ImGui::GetTime()\<close>, even when
  auto-refresh is switched on in the first frame, and the session stays empty.
\<close>

theorem first_timed_refresh_waits:
  assumes "\<forall>inp \<in> set frames. \<not> refresh_clicked inp \<and> now inp \<le> 10"
  shows "\<exists>ui'. run_frames region item apiKey frames app_init = ([], Inr (ui', session_init))"
  using run_frames_before_deadline [of ui_init frames region item apiKey session_init] assms
  by (auto simp: app_init_def ui_init_def)

theorem first_timed_refresh_waits_witness:
  "\<not> refresh_clicked \<lparr>now = 1, refresh_clicked = False, toggle_clicked = True, endpoint_timed = example_endpoint, endpoint_click = example_endpoint\<rparr> \<and>
   \<not> refresh_clicked \<lparr>now = 10, refresh_clicked = False, toggle_clicked = False, endpoint_timed = example_endpoint, endpoint_click = example_endpoint\<rparr> \<and>
   run_frames ''eu'' ''y1zq'' ''key''
     [\<lparr>now = 1, refresh_clicked = False, toggle_clicked = True, endpoint_timed = example_endpoint, endpoint_click = example_endpoint\<rparr>,
      \<lparr>now = 10, refresh_clicked = False, toggle_clicked = False, endpoint_timed = example_endpoint, endpoint_click = example_endpoint\<rparr>] app_init =
   ([], Inr (\<lparr>autoRefresh = True, lastFetchTime = 0\<rparr>, session_init))"
proof -
  have "\<exists>ui'. run_frames ''eu'' ''y1zq'' ''key''
     [\<lparr>now = 1, refresh_clicked = False, toggle_clicked = True, endpoint_timed = example_endpoint, endpoint_click = example_endpoint\<rparr>,
      \<lparr>now = 10, refresh_clicked = False, toggle_clicked = False, endpoint_timed = example_endpoint, endpoint_click = example_endpoint\<rparr>] app_init =
     ([], Inr (ui', session_init))"
    by (rule first_timed_refresh_waits) simp
  moreover have "run_frames ''eu'' ''y1zq'' ''key''
     [\<lparr>now = 1, refresh_clicked = False, toggle_clicked = True, endpoint_timed = example_endpoint, endpoint_click = example_endpoint\<rparr>,
      \<lparr>now = 10, refresh_clicked = False, toggle_clicked = False, endpoint_timed = example_endpoint, endpoint_click = example_endpoint\<rparr>] app_init =
   ([], Inr (\<lparr>autoRefresh = True, lastFetchTime = 0\<rparr>, session_init))"
    by (simp add: frame_defs app_init_def ui_init_def auto_refresh_due_def)
  ultimately show ?thesis by simp
qed

end
