(* ===== verification/Window.thy ===== *)
theory Window
  imports Display Scheduler
begin

text \<open>
  The ImGui window that \<^verbatim>\<open>drawUI\<close> builds every frame (\<^verbatim>\<open>src/main.cpp\<close>, lines
  84--113), as the sequence of ImGui calls it makes: the window, the refresh button, the
  auto-refresh checkbox, the count line and the lot table. ImGui itself is not modelled;
  a call is a value of \<open>imgui_cmd\<close> carrying the text it is given, after
  \<^verbatim>\<open>printf\<close>-style formatting. The labels are the UTF-8 bytes of the source's
  Russian string literals. \<^verbatim>\<open>ImGui::BeginTable\<close> returns whether the table is
  visible (it is not when the window is collapsed or clipped); that answer is an input.
  \<open>drawUI_frame\<close> composes the refresh logic of \<open>Scheduler\<close> with the window: the
  widgets show the state after the frame's fetch cycles, since both cycles run before the
  count line and the table are drawn.
\<close>

datatype imgui_cmd =
    WinBegin string
  | WinEnd
  | Button string
  | SameLine
  | Checkbox string bool
  | TextLine string
  | BeginTable string nat
  | TableSetupColumn string
  | TableHeadersRow
  | TableNextRow
  | TableSetColumnIndex nat
  | EndTable

text \<open>
  The string literals of lines 84--96: the window title, the button (Obnovit',
  ``refresh''), the checkbox (Avtoobnovlenie, ``auto-refresh''), the count label
  (Lotov zagruzheno, ``lots loaded''), the table id (Loty) and the four column headers
  (price, quantity, price per unit, StartTime).
\<close>

definition window_title :: string where
  "window_title = ''STALCRAFT Auction Monitor''"

definition refresh_label :: string where
  "refresh_label =
     [CHR 0xD0, CHR 0x9E, CHR 0xD0, CHR 0xB1, CHR 0xD0, CHR 0xBD, CHR 0xD0,
      CHR 0xBE, CHR 0xD0, CHR 0xB2, CHR 0xD0, CHR 0xB8, CHR 0xD1, CHR 0x82,
      CHR 0xD1, CHR 0x8C]"

definition auto_label :: string where
  "auto_label =
     [CHR 0xD0, CHR 0x90, CHR 0xD0, CHR 0xB2, CHR 0xD1, CHR 0x82, CHR 0xD0,
      CHR 0xBE, CHR 0xD0, CHR 0xBE, CHR 0xD0, CHR 0xB1, CHR 0xD0, CHR 0xBD,
      CHR 0xD0, CHR 0xBE, CHR 0xD0, CHR 0xB2, CHR 0xD0, CHR 0xBB, CHR 0xD0,
      CHR 0xB5, CHR 0xD0, CHR 0xBD, CHR 0xD0, CHR 0xB8, CHR 0xD0, CHR 0xB5]"

definition lots_loaded_label :: string where
  "lots_loaded_label =
     [CHR 0xD0, CHR 0x9B, CHR 0xD0, CHR 0xBE, CHR 0xD1, CHR 0x82, CHR 0xD0,
      CHR 0xBE, CHR 0xD0, CHR 0xB2, CHR 0x20, CHR 0xD0, CHR 0xB7, CHR 0xD0,
      CHR 0xB0, CHR 0xD0, CHR 0xB3, CHR 0xD1, CHR 0x80, CHR 0xD1, CHR 0x83,
      CHR 0xD0, CHR 0xB6, CHR 0xD0, CHR 0xB5, CHR 0xD0, CHR 0xBD, CHR 0xD0,
      CHR 0xBE, CHR 0x3A, CHR 0x20]"

definition lots_table_id :: string where
  "lots_table_id = [CHR 0xD0, CHR 0x9B, CHR 0xD0, CHR 0xBE, CHR 0xD1, CHR 0x82, CHR 0xD1, CHR 0x8B]"

definition column_headers :: "string list" where
  "column_headers =
     [[CHR 0xD0, CHR 0xA6, CHR 0xD0, CHR 0xB5, CHR 0xD0, CHR 0xBD, CHR 0xD0, CHR 0xB0],
      [CHR 0xD0, CHR 0x9A, CHR 0xD0, CHR 0xBE, CHR 0xD0, CHR 0xBB, CHR 0x2D,
       CHR 0xD0, CHR 0xB2, CHR 0xD0, CHR 0xBE],
      [CHR 0xD0, CHR 0xA6, CHR 0xD0, CHR 0xB5, CHR 0xD0, CHR 0xBD, CHR 0xD0,
       CHR 0xB0, CHR 0x2F, CHR 0xD1, CHR 0x88, CHR 0xD1, CHR 0x82],
      ''StartTime'']"

text \<open>Line 91: the count line, \<^verbatim>\<open>"%zu"\<close> of \<^verbatim>\<open>lots.size()\<close>.\<close>

definition count_text :: "session \<Rightarrow> string" where
  "count_text s = lots_loaded_label @ nat_to_dec (lots_loaded s)"

text \<open>Lines 100--108: the calls for one row, cell by cell.\<close>

definition row_cmds :: "table_row \<Rightarrow> imgui_cmd list" where
  "row_cmds r =
     [TableNextRow,
      TableSetColumnIndex 0, TextLine (format_row r ! 0),
      TableSetColumnIndex 1, TextLine (format_row r ! 1),
      TableSetColumnIndex 2, TextLine (format_row r ! 2),
      TableSetColumnIndex 3, TextLine (format_row r ! 3)]"

text \<open>Lines 92--112: nothing is drawn when \<^verbatim>\<open>BeginTable\<close> returns false.\<close>

definition table_cmds :: "bool \<Rightarrow> LotData list \<Rightarrow> imgui_cmd list" where
  "table_cmds visible ls =
     (if visible then
        [BeginTable lots_table_id 4] @ map TableSetupColumn column_headers @ [TableHeadersRow] @
        concat (map row_cmds (table_rows ls)) @ [EndTable]
      else [])"

text \<open>
  Lines 84--113: the window of a frame, drawn from the state the frame's refresh steps
  left (the checkbox shows the value after its own click).
\<close>

definition window_cmds :: "bool \<Rightarrow> app_state \<Rightarrow> imgui_cmd list" where
  "window_cmds visible st =
     (case st of (ui, s) \<Rightarrow>
        [WinBegin window_title, Button refresh_label, SameLine,
         Checkbox auto_label (autoRefresh ui), TextLine (count_text s)] @
        table_cmds visible (lots s) @ [WinEnd])"

text \<open>
  Lines 75--114: one whole call of \<^verbatim>\<open>drawUI\<close>. An exception of a fetch cycle leaves
  the frame (and the program) before the window is complete, so such a frame draws
  nothing that is ever shown.
\<close>

definition drawUI_frame ::
  "string \<Rightarrow> string \<Rightarrow> string \<Rightarrow> frame_input \<Rightarrow> bool \<Rightarrow> app_state \<Rightarrow>
   request list list \<times> (app_state \<times> imgui_cmd list) result" where
  "drawUI_frame region item apiKey inp visible st =
     (case drawUI region item apiKey inp st of
        (c, Inl e) \<Rightarrow> (c, Inl e)
      | (c, Inr st') \<Rightarrow> (c, Inr (st', window_cmds visible st')))"

text \<open>
  Readers of a command list, to state what a window shows: the texts drawn, in order,
  the column indices set, and the number of rows started.
\<close>

fun cmd_texts :: "imgui_cmd list \<Rightarrow> string list" where
  "cmd_texts [] = []"
| "cmd_texts (TextLine t # cs) = t # cmd_texts cs"
| "cmd_texts (_ # cs) = cmd_texts cs"

fun cmd_columns :: "imgui_cmd list \<Rightarrow> nat list" where
  "cmd_columns [] = []"
| "cmd_columns (TableSetColumnIndex i # cs) = i # cmd_columns cs"
| "cmd_columns (_ # cs) = cmd_columns cs"

fun cmd_rows :: "imgui_cmd list \<Rightarrow> nat" where
  "cmd_rows [] = 0"
| "cmd_rows (TableNextRow # cs) = Suc (cmd_rows cs)"
| "cmd_rows (_ # cs) = cmd_rows cs"

subsection \<open>Reading a window\<close>

lemma cmd_readers_append [simp]:
  "cmd_texts (xs @ ys) = cmd_texts xs @ cmd_texts ys"
  "cmd_columns (xs @ ys) = cmd_columns xs @ cmd_columns ys"
  "cmd_rows (xs @ ys) = cmd_rows xs + cmd_rows ys"
  by (induction xs rule: cmd_texts.induct) simp_all

lemma cmd_readers_concat [simp]:
  "cmd_texts (concat xss) = concat (map cmd_texts xss)"
  "cmd_columns (concat xss) = concat (map cmd_columns xss)"
  "cmd_rows (concat xss) = sum_list (map cmd_rows xss)"
  by (induction xss) simp_all

lemma row_cmds_read:
  "cmd_texts (row_cmds r) = format_row r"
  "cmd_columns (row_cmds r) = [0, 1, 2, 3]"
  "cmd_rows (row_cmds r) = 1"
  by (simp_all add: row_cmds_def format_row_def)

lemma headers_read:
  "cmd_texts (map TableSetupColumn hs) = []" "cmd_columns (map TableSetupColumn hs) = []"
  "cmd_rows (map TableSetupColumn hs) = 0"
  by (induction hs) simp_all

lemma dec_to_nat_count_text:
  "dec_to_nat (drop (length lots_loaded_label) (count_text s)) = length (lots s)"
  by (simp add: count_text_def lots_loaded_def dec_to_nat_nat_to_dec)

text \<open>
  C35. The window of a frame shows the count line first and then, when the table is
  visible, one row per lot of \<^verbatim>\<open>lots\<close>, in order, each filling columns 0 to 3 with
  the four cells of \<open>format_row\<close>; the number in the count line reads back as the
  number of rows. When \<^verbatim>\<open>BeginTable\<close> fails, only the count line is drawn.
\<close>

theorem window_cmds_layout:
  "cmd_texts (window_cmds visible (ui, s)) =
     count_text s # (if visible then concat (map format_row (table_rows (lots s))) else []) \<and>
   cmd_columns (window_cmds visible (ui, s)) =
     (if visible then concat (replicate (length (lots s)) [0, 1, 2, 3]) else []) \<and>
   cmd_rows (window_cmds visible (ui, s)) = (if visible then length (lots s) else 0) \<and>
   dec_to_nat (drop (length lots_loaded_label) (count_text s)) = length (lots s)"
  by (simp add: window_cmds_def table_cmds_def row_cmds_read headers_read comp_def
      sum_list_replicate map_replicate_const table_rows_def dec_to_nat_count_text)

subsection \<open>A refresh as the user sees it\<close>

text \<open>
  C37. A frame in which the user clicks the refresh button (the timed refresh not being
  due), whose click cycle meets an endpoint that serves a sequence of pages, sends the page requests and
  draws a table holding exactly the lots of those pages whose start time is new, in the
  order served, after a count line for them: the fetch cycle of \<open>Fetcher\<close>, the refresh
  policy of \<open>Scheduler\<close> and the window composed.
\<close>

theorem drawUI_frame_shows_fresh_lots:
  assumes "refresh_clicked inp" and "\<not> auto_refresh_due ui (now inp)"
    and "serves_pages (endpoint_click inp) region item apiKey 0 pages" and "length pages \<le> 21474837"
  shows "\<exists>st'. drawUI_frame region item apiKey inp True (ui, s) =
            ([map (\<lambda>j. lot_request region item apiKey (limit * int j)) [0..<length pages]],
             Inr (st', window_cmds True st')) \<and>
          lots (snd st') = fresh_lots (knownStartTimes s) (decoded_pages pages) \<and>
          cmd_texts (window_cmds True st') =
            count_text (snd st') # concat (map format_row (table_rows (lots (snd st'))))"
proof -
  have f: "fetchLots (endpoint_click inp) region item apiKey s =
     (map (\<lambda>j. lot_request region item apiKey (limit * int j)) [0..<length pages],
      Inr (s\<lparr>lots := fresh_lots (knownStartTimes s) (decoded_pages pages),
             knownStartTimes := knownStartTimes s \<union> set (map startTime (decoded_pages pages))\<rparr>))"
    using fetch_loop_serves_pages [of "endpoint_click inp" region item apiKey 0 pages "s\<lparr>lots := []\<rparr>"] assms(3,4)
    by (simp add: fetchLots_def limit_def INT_MAX_def)
  have "drawUI_frame region item apiKey inp True (ui, s) =
     ([map (\<lambda>j. lot_request region item apiKey (limit * int j)) [0..<length pages]],
      Inr ((checkbox_step inp ui, s\<lparr>lots := fresh_lots (knownStartTimes s) (decoded_pages pages),
             knownStartTimes := knownStartTimes s \<union> set (map startTime (decoded_pages pages))\<rparr>),
           window_cmds True (checkbox_step inp ui, s\<lparr>lots := fresh_lots (knownStartTimes s) (decoded_pages pages),
             knownStartTimes := knownStartTimes s \<union> set (map startTime (decoded_pages pages))\<rparr>)))"
    using assms f by (simp add: drawUI_frame_def drawUI_def manual_refresh_step_def)
  then show ?thesis
    by (auto simp: window_cmds_def table_cmds_def row_cmds_read headers_read comp_def table_rows_def)
qed

theorem drawUI_frame_shows_fresh_lots_witness:
  "refresh_clicked \<lparr>now = 3, refresh_clicked = True, toggle_clicked = False, endpoint_timed = example_endpoint, endpoint_click = example_endpoint\<rparr> \<and>
   \<not> auto_refresh_due ui_init 3 \<and>
   serves_pages example_endpoint ''eu'' ''y1zq'' ''key'' 0
     [[example_lot ''t1'', example_lot ''t2'', example_lot ''t1'']] \<and>
   drawUI_frame ''eu'' ''y1zq'' ''key''
     \<lparr>now = 3, refresh_clicked = True, toggle_clicked = False, endpoint_timed = example_endpoint, endpoint_click = example_endpoint\<rparr> True
     (ui_init, session_init) =
   ([[lot_request ''eu'' ''y1zq'' ''key'' 0]],
    Inr ((ui_init, example_session), window_cmds True (ui_init, example_session))) \<and>
   cmd_texts (window_cmds True (ui_init, example_session)) =
     [lots_loaded_label @ ''2'', ''1000'', ''0'', ''1000'', ''t1'', ''1000'', ''0'', ''1000'', ''t2'']"
proof -
  let ?inp = "\<lparr>now = 3, refresh_clicked = True, toggle_clicked = False, endpoint_timed = example_endpoint, endpoint_click = example_endpoint\<rparr>"
  have sp: "serves_pages example_endpoint ''eu'' ''y1zq'' ''key'' 0
     [[example_lot ''t1'', example_lot ''t2'', example_lot ''t1'']]"
    by (simp add: serves_pages_def example_endpoint_def limit_def)
  have nd: "\<not> auto_refresh_due ui_init 3" by (simp add: auto_refresh_due_def ui_init_def)
  have run: "drawUI_frame ''eu'' ''y1zq'' ''key'' ?inp True (ui_init, session_init) =
   ([[lot_request ''eu'' ''y1zq'' ''key'' 0]],
    Inr ((ui_init, example_session), window_cmds True (ui_init, example_session)))"
    by (simp add: drawUI_frame_def frame_defs auto_refresh_due_def ui_init_def example_cycle)
  have "cmd_texts (window_cmds True (ui_init, example_session)) =
     count_text example_session # concat (map format_row (table_rows (lots example_session)))"
    using drawUI_frame_shows_fresh_lots [of ?inp ui_init "''eu''" "''y1zq''" "''key''"
        "[[example_lot ''t1'', example_lot ''t2'', example_lot ''t1'']]" session_init] sp nd run
    by auto
  then have "cmd_texts (window_cmds True (ui_init, example_session)) =
     [lots_loaded_label @ ''2'', ''1000'', ''0'', ''1000'', ''t1'', ''1000'', ''0'', ''1000'', ''t2'']"
    by (simp add: count_text_def lots_loaded_def example_session_def table_rows_def format_row_def
        price_per_unit_def std_max_i32_def c_div_i64_def word_sless_alt int_to_dec_def
        nat_to_dec.simps dec_digits_def)
  with sp nd run show ?thesis by simp
qed

end
