(* ===== verification/Config.thy ===== *)
theory Config
  imports Scheduler
begin

text \<open>
  Start-up (\<^verbatim>\<open>src/main.cpp\<close>, lines 32--40 and 116--120): \<^verbatim>\<open>loadConfig\<close> opens
  \<^verbatim>\<open>config.json\<close> and parses it, \<^verbatim>\<open>main\<close> reads three strings from it, and then
  runs the frame loop of \<open>Scheduler\<close> with them (\<open>main_model\<close>). The file is
  either not openable or a text whose parse is a \<open>jval option\<close>, as for the
  endpoint's bodies. Of the window set-up between the configuration and the loop
  (lines 122--134) and the shutdown (153--158) the model keeps what decides the exit
  status: whether \<^verbatim>\<open>glfwInit\<close> and \<^verbatim>\<open>glfwCreateWindow\<close> succeed
  (\<open>main_loop\<close>, \<open>main_exit\<close>); the other calls are I/O and cannot fail.
\<close>

datatype config_file = CannotOpen | FileText "jval option"

text \<open>Lines 32--40: \<^verbatim>\<open>runtime_error\<close> when the file does not open, \<^verbatim>\<open>parse_error\<close> from
  \<^verbatim>\<open>configFile >> config\<close> when it is not JSON.\<close>

definition loadConfig :: "config_file \<Rightarrow> jval result" where
  "loadConfig f =
     (case f of
        CannotOpen \<Rightarrow> Inl RuntimeError
      | FileText None \<Rightarrow> Inl ParseError
      | FileText (Some j) \<Rightarrow> Inr j)"

text \<open>
  Lines 118--120: \<^verbatim>\<open>config[key]\<close> on the non-const \<^verbatim>\<open>json\<close>, then the implicit
  conversion to \<^verbatim>\<open>std::string\<close>; the three reads in the order of the source.
\<close>

definition config_string :: "jval \<Rightarrow> string \<Rightarrow> string result" where
  "config_string config k = ebind (json_at config k) json_get_string"

definition read_config :: "jval \<Rightarrow> (string \<times> string \<times> string) result" where
  "read_config config =
     ebind (config_string config ''api_key'') (\<lambda>apiKey.
     ebind (config_string config ''region'') (\<lambda>region.
     ebind (config_string config ''item_id'') (\<lambda>item.
       Inr (apiKey, region, item))))"

text \<open>
  Lines 116--151: configuration, then one \<^verbatim>\<open>drawUI(region, itemId, apiKey)\<close> per
  frame from the initial state. A failure of the configuration ends \<^verbatim>\<open>main\<close> before
  any request.
\<close>

definition main_model :: "config_file \<Rightarrow> frame_input list \<Rightarrow> frame_result" where
  "main_model f frames =
     (case ebind (loadConfig f) read_config of
        Inl e \<Rightarrow> ([], Inl e)
      | Inr (apiKey, region, item) \<Rightarrow> run_frames region item apiKey frames app_init)"

text \<open>
  Lines 122--159, after the configuration: \<^verbatim>\<open>glfwInit\<close> may fail, and \<^verbatim>\<open>main\<close>
  then returns 1 at once; \<^verbatim>\<open>glfwCreateWindow\<close> may return \<^verbatim>\<open>NULL\<close>, which the
  code does not test. \<^verbatim>\<open>glfwMakeContextCurrent(NULL)\<close> (line 127) is allowed and
  only detaches the context, but the null window then goes to
  \<^verbatim>\<open>ImGui_ImplGlfw_InitForOpenGL\<close> (line 133) and \<^verbatim>\<open>glfwWindowShouldClose\<close>
  (line 137), whose contracts require a valid window (undefined behaviour). Otherwise the frame loop runs
  until the window closes, the shutdown calls (153--158) cannot fail, and \<^verbatim>\<open>main\<close>
  returns 0. The outcome of the two GLFW calls is an input of the model.
\<close>

definition main_loop ::
  "string \<Rightarrow> string \<Rightarrow> string \<Rightarrow> bool \<Rightarrow> bool \<Rightarrow> frame_input list \<Rightarrow>
   request list list \<times> int result" where
  "main_loop region item apiKey init_ok window_ok frames =
     (if \<not> init_ok then ([], Inr 1)
      else if \<not> window_ok then ([], Inl NullWindowUB)
      else (case run_frames region item apiKey frames app_init of
              (cs, Inl e) \<Rightarrow> (cs, Inl e)
            | (cs, Inr _) \<Rightarrow> (cs, Inr 0)))"

text \<open>Lines 116--160: \<^verbatim>\<open>main\<close> with its exit status.\<close>

definition main_exit ::
  "config_file \<Rightarrow> bool \<Rightarrow> bool \<Rightarrow> frame_input list \<Rightarrow> request list list \<times> int result" where
  "main_exit f init_ok window_ok frames =
     (case ebind (loadConfig f) read_config of
        Inl e \<Rightarrow> ([], Inl e)
      | Inr (apiKey, region, item) \<Rightarrow> main_loop region item apiKey init_ok window_ok frames)"

subsection \<open>Start-up\<close>

lemma config_string_Inr_iff:
  "config_string config k = Inr v \<longleftrightarrow>
     (\<exists>kvs. config = JObj kvs \<and> map_of kvs k = Some (JStr v))"
  by (cases config) (auto simp: config_string_def split: option.splits)

text \<open>
  C18. The configuration is accepted exactly when it is an object binding
  \<^verbatim>\<open>api_key\<close>, \<^verbatim>\<open>region\<close> and \<^verbatim>\<open>item_id\<close> to strings; the three strings read
  are those.
\<close>

theorem read_config_Inr_iff:
  "read_config config = Inr (apiKey, region, item) \<longleftrightarrow>
     (\<exists>kvs. config = JObj kvs \<and> map_of kvs ''api_key'' = Some (JStr apiKey) \<and>
            map_of kvs ''region'' = Some (JStr region) \<and> map_of kvs ''item_id'' = Some (JStr item))"
  by (auto simp: read_config_def config_string_Inr_iff)

text \<open>
  C19. A configuration that cannot be read (file not openable, not JSON, a key missing or
  not a string) ends the program with that failure before any request is issued.
\<close>

theorem main_model_config_failure:
  "ebind (loadConfig f) read_config = Inl e \<Longrightarrow> main_model f frames = ([], Inl e)"
  by (simp add: main_model_def)

theorem main_model_config_failure_witness:
  "ebind (loadConfig (FileText (Some (JObj [(''region'', JStr ''eu''), (''api_key'', JInt 7)])))) read_config =
     Inl (TypeError 302) \<and>
   main_model (FileText (Some (JObj [(''region'', JStr ''eu''), (''api_key'', JInt 7)])))
     [\<lparr>now = 3, refresh_clicked = True, toggle_clicked = False, endpoint_timed = example_endpoint, endpoint_click = example_endpoint\<rparr>] =
     ([], Inl (TypeError 302))"
proof -
  have cfg: "ebind (loadConfig (FileText (Some (JObj [(''region'', JStr ''eu''), (''api_key'', JInt 7)])))) read_config =
     Inl (TypeError 302)"
    by (simp add: loadConfig_def read_config_def config_string_def)
  show ?thesis using main_model_config_failure [OF cfg] cfg by simp
qed

subsection \<open>Exit status\<close>

text \<open>
  C33. \<^verbatim>\<open>main\<close> returns 1 only when \<^verbatim>\<open>glfwInit\<close> fails, and then before any
  request; it returns 0 only when GLFW came up and the configured frame loop
  (\<open>main_model\<close>) ran every frame without an exception, with the same requests.
\<close>

theorem main_exit_status:
  assumes "main_exit f init_ok window_ok frames = (cs, Inr code)"
  shows "(code = 1 \<and> cs = [] \<and> \<not> init_ok) \<or>
         (code = 0 \<and> init_ok \<and> window_ok \<and> (\<exists>st. main_model f frames = (cs, Inr st)))"
proof (cases "ebind (loadConfig f) read_config")
  case (Inl e)
  with assms show ?thesis by (simp add: main_exit_def)
next
  case (Inr cfg)
  obtain apiKey region item where cfg: "cfg = (apiKey, region, item)" by (cases cfg) blast
  with Inr assms show ?thesis
    by (auto simp: main_exit_def main_loop_def main_model_def split: if_splits prod.splits sum.splits)
qed

theorem main_exit_status_witness:
  "main_exit (FileText (Some (JObj [(''api_key'', JStr ''key''), (''region'', JStr ''eu''),
      (''item_id'', JStr ''y1zq'')]))) True True
     [\<lparr>now = 3, refresh_clicked = True, toggle_clicked = False, endpoint_timed = example_endpoint, endpoint_click = example_endpoint\<rparr>] =
     ([[lot_request ''eu'' ''y1zq'' ''key'' 0]], Inr 0) \<and>
   main_model (FileText (Some (JObj [(''api_key'', JStr ''key''), (''region'', JStr ''eu''),
      (''item_id'', JStr ''y1zq'')])))
     [\<lparr>now = 3, refresh_clicked = True, toggle_clicked = False, endpoint_timed = example_endpoint, endpoint_click = example_endpoint\<rparr>] =
     ([[lot_request ''eu'' ''y1zq'' ''key'' 0]], Inr (ui_init, example_session)) \<and>
   main_exit (FileText (Some (JObj [(''api_key'', JStr ''key''), (''region'', JStr ''eu''),
      (''item_id'', JStr ''y1zq'')]))) False True
     [\<lparr>now = 3, refresh_clicked = True, toggle_clicked = False, endpoint_timed = example_endpoint, endpoint_click = example_endpoint\<rparr>] =
     ([], Inr 1)"
proof -
  have ok: "main_exit (FileText (Some (JObj [(''api_key'', JStr ''key''), (''region'', JStr ''eu''),
      (''item_id'', JStr ''y1zq'')]))) True True
     [\<lparr>now = 3, refresh_clicked = True, toggle_clicked = False, endpoint_timed = example_endpoint, endpoint_click = example_endpoint\<rparr>] =
     ([[lot_request ''eu'' ''y1zq'' ''key'' 0]], Inr 0)"
    by (simp add: main_exit_def main_loop_def loadConfig_def read_config_def config_string_def
        frame_defs app_init_def ui_init_def auto_refresh_due_def example_cycle)
  have fail: "main_exit (FileText (Some (JObj [(''api_key'', JStr ''key''), (''region'', JStr ''eu''),
      (''item_id'', JStr ''y1zq'')]))) False True
     [\<lparr>now = 3, refresh_clicked = True, toggle_clicked = False, endpoint_timed = example_endpoint, endpoint_click = example_endpoint\<rparr>] =
     ([], Inr 1)"
    by (simp add: main_exit_def main_loop_def loadConfig_def read_config_def config_string_def)
  have mm: "main_model (FileText (Some (JObj [(''api_key'', JStr ''key''), (''region'', JStr ''eu''),
      (''item_id'', JStr ''y1zq'')])))
     [\<lparr>now = 3, refresh_clicked = True, toggle_clicked = False, endpoint_timed = example_endpoint, endpoint_click = example_endpoint\<rparr>] =
     ([[lot_request ''eu'' ''y1zq'' ''key'' 0]], Inr (ui_init, example_session))"
    by (simp add: main_model_def loadConfig_def read_config_def config_string_def
        frame_defs app_init_def ui_init_def auto_refresh_due_def example_cycle)
  from ok fail mm main_exit_status [OF ok] show ?thesis by simp
qed

text \<open>
  C34. When \<^verbatim>\<open>glfwCreateWindow\<close> fails after a successful \<^verbatim>\<open>glfwInit\<close>, the
  unchecked null window makes the program's behaviour undefined, before any request.
\<close>

theorem main_exit_null_window:
  assumes "ebind (loadConfig f) read_config = Inr (apiKey, region, item)"
    and "init_ok" and "\<not> window_ok"
  shows "main_exit f init_ok window_ok frames = ([], Inl NullWindowUB)"
  unfolding main_exit_def assms(1) using assms(2,3) by (simp add: main_loop_def)

theorem main_exit_null_window_witness:
  "ebind (loadConfig (FileText (Some (JObj [(''api_key'', JStr ''key''), (''region'', JStr ''eu''),
      (''item_id'', JStr ''y1zq'')])))) read_config = Inr (''key'', ''eu'', ''y1zq'') \<and>
   main_exit (FileText (Some (JObj [(''api_key'', JStr ''key''), (''region'', JStr ''eu''),
      (''item_id'', JStr ''y1zq'')]))) True False
     [\<lparr>now = 3, refresh_clicked = True, toggle_clicked = False, endpoint_timed = example_endpoint, endpoint_click = example_endpoint\<rparr>] =
     ([], Inl NullWindowUB)"
proof -
  have cfg: "ebind (loadConfig (FileText (Some (JObj [(''api_key'', JStr ''key''), (''region'', JStr ''eu''),
      (''item_id'', JStr ''y1zq'')])))) read_config = Inr (''key'', ''eu'', ''y1zq'')"
    by (simp add: loadConfig_def read_config_def config_string_def)
  from main_exit_null_window [OF cfg, of True False] cfg show ?thesis by simp
qed

end
