(* ===== verification/Spec2Isabelle.thy ===== *)
theory Spec2Isabelle
  imports Fetcher Decoding Display Scheduler Window Config
begin

text \<open>
  \<^bold>\<open>A verification development of StalAucUI\<close> (\<^verbatim>\<open>src/main.cpp\<close>), a monitor that
  polls the STALCRAFT auction endpoint for one item and region, deduplicates the lots it
  sees by their start time, and shows them in an ImGui table.

  \<^bold>\<open>The program's parts and how they interact.\<close> \<^verbatim>\<open>main\<close> reads three strings from
  \<^verbatim>\<open>config.json\<close> (\<^verbatim>\<open>loadConfig\<close>), opens a window and calls \<^verbatim>\<open>drawUI\<close> once
  per frame. \<^verbatim>\<open>drawUI\<close> decides whether to run a fetch cycle (timed refresh every
  10 seconds when the checkbox is on, and on every click of the refresh button) and draws
  the table from the global \<^verbatim>\<open>lots\<close>. \<^verbatim>\<open>fetchLots\<close> clears \<^verbatim>\<open>lots\<close>, then pages
  through the endpoint 100 lots at a time; it appends each lot whose \<^verbatim>\<open>startTime\<close>
  is not in the global \<^verbatim>\<open>knownStartTimes\<close> and records the key. The components share
  the two globals; the fetch cycle is a synchronous call inside the frame.

  \<^bold>\<open>Theories.\<close>
  \<^item> \<open>Prelude\<close>: machine integer types (\<open>i64\<close>, \<open>i32\<close> as \<open>64 word\<close>,
    \<open>32 word\<close>), the \<open>failure\<close> datatype (every uncaught C++ exception and every
    undefined behaviour the code can reach), the error-monad bind \<open>ebind\<close> on
    \<open>failure + 'a\<close>, \<open>INT_MAX\<close>, and shared list/arithmetic lemmas.
  \<^item> \<open>Json\<close>: the nlohmann::json operations the code calls (\<open>json_contains\<close>,
    \<open>json_is_array\<close>, \<open>json_size\<close>, the non-const and const \<^verbatim>\<open>operator[]\<close> as
    \<open>json_at\<close>/\<open>json_at_const\<close>, the string/\<^verbatim>\<open>int64_t\<close>/\<^verbatim>\<open>int32_t\<close>
    conversions), written from the library's documented behaviour: the library is not
    part of the repository and is not verified. A double is kept as the dyadic value
    \<open>m * 2 ^ e\<close> of \<open>JFloat m e\<close>; its \<^verbatim>\<open>static_cast\<close> to an integer type
    (\<open>float_cast\<close>) truncates with integer operations and is undefined behaviour
    (\<open>FloatCastUB\<close>) when the result does not fit, and it is shown equal to the
    truncation of the rational value (\<open>trunc_pow2_eq\<close>).
  \<^item> \<open>Clock\<close>: the conversion of the \<^verbatim>\<open>double\<close> clock to the \<^verbatim>\<open>float\<close>
    \<^verbatim>\<open>lastFetchTime\<close> (line 81) as \<open>to_float\<close>, IEEE binary32 rounding to nearest,
    ties to even (\<open>round_even\<close>, \<open>float_exp\<close>, \<open>float_ulp\<close>); lemmas: the
    rounding error is at most half a \<open>float_ulp\<close>, at most 8 seconds for clocks below
    \<open>2 ^ 28\<close> seconds, the conversion is monotone, and the values it keeps exactly.
  \<^item> \<open>Decoding\<close>: the types a \<^verbatim>\<open>lots\<close> entry must have (\<open>lot_typed\<close>), shown to be
    exactly what \<open>process_lot\<close> accepts, and what \<open>process_lot\<close> stores for a new lot
    whose price or amount is sent as a double (the truncated value, or undefined
    behaviour when it does not fit).
  \<^item> \<open>Fetcher\<close>: \<^verbatim>\<open>LotData\<close> and the globals as the records \<open>LotData\<close> and
    \<open>session\<close>; \<open>process_lot\<close> (lines 58--67), \<open>process_lots\<close> (57--68),
    \<open>fetch_page\<close> (50--70), \<open>fetch_loop\<close> (47--72), \<open>fetchLots\<close> (42--73).
    The endpoint is a function \<open>server\<close> from a \<open>request\<close> (region, item, offset,
    limit, authorisation header: lines 48--50) to a \<open>response\<close> (status and the result
    of \<^verbatim>\<open>json::parse\<close>). A cycle returns the list of requests it issued and either
    the failure that escaped it or the new session. The lemmas show the session invariant
    (distinct, known start times), what a cycle adds to \<^verbatim>\<open>knownStartTimes\<close>, the
    refinement of a page against the abstract selection \<open>fresh_lots\<close> /
    \<open>first_fresh_lots\<close> of \<open>decode_lot\<close>ed entries, the refinement of a whole
    cycle against an endpoint that \<open>serves_pages\<close> (the lots collected are
    \<open>fresh_lots\<close> of the \<open>decoded_pages\<close>, the spec's 250-lot test in general form),
    the exact sequence of
    requests, the early stop on a bad status, the exception on a malformed body, the
    overflow of the offset against an endpoint that never sends a short page, and that
    \<open>process_lot\<close> stores an integer \<^verbatim>\<open>amount\<close> reduced to 32 bits.
  \<^item> \<open>Display\<close>: the values of a table row and the count line (lines 91--112); the
    unit price \<^verbatim>\<open>buyoutPrice / std::max(1, amount)\<close> as \<open>price_per_unit\<close> with
    C++ truncating division on \<open>sint\<close> values, and the printed cells of a row
    (\<^verbatim>\<open>%lld\<close>, \<^verbatim>\<open>%d\<close>, \<^verbatim>\<open>%s\<close> of \<^verbatim>\<open>c_str()\<close>, cut at a NUL) as
    \<open>format_row\<close>; lemmas on the unit price's value, the guard against a zero amount,
    its bounds, that the printed cells read back to each lot's values, and that a price
    above \<^verbatim>\<open>INT64_MAX\<close> is stored by \<open>process_lot\<close> and printed negative.
  \<^item> \<open>Window\<close>: the ImGui calls of lines 84--113 as a list of \<open>imgui_cmd\<close> values
    (\<open>window_cmds\<close>, \<open>table_cmds\<close>, \<open>row_cmds\<close>, \<open>count_text\<close>, the labels as
    the UTF-8 bytes of the source's literals), and \<open>drawUI_frame\<close>, the whole
    \<^verbatim>\<open>drawUI\<close>: refresh steps, then the window drawn from their state. Readers of a
    command list (\<open>cmd_texts\<close>, \<open>cmd_columns\<close>, \<open>cmd_rows\<close>) state what a window
    shows: its layout, and that a refresh click draws exactly the fresh lots of the
    pages served.
  \<^item> \<open>Scheduler\<close>: the statics of \<^verbatim>\<open>drawUI\<close> as \<open>ui_state\<close> (the clock is a
    real, the \<^verbatim>\<open>double\<close> of \<^verbatim>\<open>ImGui::GetTime()\<close>, constant during a frame;
    \<^verbatim>\<open>lastFetchTime\<close> holds \<open>to_float\<close> of it), a frame's inputs as
    \<open>frame_input\<close> (the clock, the two clicks, and one \<open>server\<close> for each of the
    frame's two possible cycles, since the timed one of line 80 and the manual one of
    line 86 query the live server at different moments), one frame as
    \<open>auto_refresh_step\<close> (79--82), \<open>manual_refresh_step\<close> (85--87) and
    \<open>checkbox_step\<close> (89) composed in statement order by \<open>drawUI\<close>; the frame loop
    of \<^verbatim>\<open>main\<close> as \<open>run_frames\<close>, and \<open>reachable\<close> states (an inductive
    relation over frames with a non-decreasing clock). Lemmas: gating, the spacing of
    timed refreshes under the float timer, the manual refresh that leaves the timer
    alone, two cycles in one frame against a server that answers both alike, the
    invariant of reachable states (\<^verbatim>\<open>lastFetchTime\<close> at most the rounded clock),
    that every cycle of a run starts from the first page, where requests go, the
    liveness of the timed refresh over runs of frames, the 10-second bound on the age
    of the last fetch (for clocks below \<open>2 ^ 28\<close> seconds), that a lot
    appears in the table of one cycle only (\<open>refreshed\<close>), and that the first timed
    refresh waits for 10 seconds of clock because \<^verbatim>\<open>lastFetchTime\<close> starts at 0.
  \<^item> \<open>Config\<close>: \<open>loadConfig\<close> (32--40), the three configuration reads
    \<open>read_config\<close> (118--120), the whole program up to the end of the frame loop
    \<open>main_model\<close> (116--151), and \<open>main\<close> with its exit status \<open>main_exit\<close>
    (116--160), whose \<open>main_loop\<close> takes the outcomes of \<^verbatim>\<open>glfwInit\<close> and
    \<^verbatim>\<open>glfwCreateWindow\<close> as inputs; a null window is the failure
    \<open>NullWindowUB\<close>.
  \<^item> This theory: the properties that span components (the spec's idempotence test,
    the target of every request the program issues, and the table of every reachable
    state showing no start time twice).

  \<^bold>\<open>Bounds and termination.\<close> \<open>fetch_loop\<close> is a \<^theory_text>\<open>function\<close> whose
  termination measure is \<open>INT_MAX - offset\<close>: the C++ loop has no bound of its own,
  but after 21474837 full pages \<^verbatim>\<open>offset += limit\<close> would overflow \<^verbatim>\<open>int\<close>, which
  is undefined behaviour and is modelled as the failure \<open>SignedOverflowUB\<close>. So every
  cycle of the model ends, and the theorem \<open>fetchLots_always_full_overflow\<close> shows
  that this bound is reached by an endpoint that always sends full pages. No fuel is used.

  \<^bold>\<open>Not modelled.\<close> The GLFW/OpenGL/ImGui libraries (context and frame set-up,
  what ImGui renders from the calls \<^verbatim>\<open>drawUI\<close> makes; only whether \<^verbatim>\<open>glfwInit\<close>
  and \<^verbatim>\<open>glfwCreateWindow\<close> succeed and whether \<^verbatim>\<open>BeginTable\<close> shows the table
  are inputs) and the HTTP transport (cpr) are I/O through external libraries: the
  endpoint is an arbitrary function and a drawn widget is the call that draws it.
  The decimal-to-double rounding of \<^verbatim>\<open>json::parse\<close> is not modelled: a body is
  the parsed value, so a double is the value the parser produced. The clock is a real
  number and the subtraction of line 79 is exact: its \<^verbatim>\<open>double\<close> rounding only
  matters within a few \<open>10 ^ -15\<close> seconds of the threshold; the conversion of the
  clock to \<^verbatim>\<open>float\<close> (line 81) is modelled (\<open>Clock\<close>), but not its overflow
  beyond \<^verbatim>\<open>FLT_MAX\<close> seconds. The key inserted into the configuration object
  by the non-const \<^verbatim>\<open>operator[]\<close> is not kept, as nothing reads it.
\<close>

text \<open>
  C2. Deduplication is idempotent across cycles (the spec's first test): when two
  cycles in a row run against an endpoint that serves the same pages, the second issues
  the same requests, collects no lot at all, and leaves \<^verbatim>\<open>knownStartTimes\<close> as the
  first cycle left it.
\<close>

theorem second_cycle_collects_nothing:
  assumes "fetchLots srv region item apiKey s = (reqs, Inr s1)"
    and "fetchLots srv region item apiKey s1 = (reqs', Inr s2)"
  shows "reqs' = reqs \<and> lots s2 = [] \<and> knownStartTimes s2 = knownStartTimes s1"
  using fetchLots_replay [OF assms(1)] assms(2) by simp

theorem second_cycle_collects_nothing_witness:
  "fetchLots example_endpoint ''eu'' ''y1zq'' ''key'' session_init =
     ([lot_request ''eu'' ''y1zq'' ''key'' 0], Inr example_session) \<and>
   fetchLots example_endpoint ''eu'' ''y1zq'' ''key'' example_session =
     ([lot_request ''eu'' ''y1zq'' ''key'' 0], Inr (example_session\<lparr>lots := []\<rparr>)) \<and>
   lots example_session \<noteq> [] \<and> lots (example_session\<lparr>lots := []\<rparr>) = []"
proof -
  have second: "fetchLots example_endpoint ''eu'' ''y1zq'' ''key'' example_session =
     ([lot_request ''eu'' ''y1zq'' ''key'' 0], Inr (example_session\<lparr>lots := []\<rparr>))"
    by (rule fetchLots_replay [OF example_cycle])
  from second_cycle_collects_nothing [OF example_cycle second] second example_cycle
  show ?thesis by (simp add: example_session_def)
qed

text \<open>
  C20. Every request the program issues, in every frame, is a page request for the
  configured region and item, with the page size 100 and the configured credential in the
  \<^verbatim>\<open>Authorization: Bearer\<close> header.
\<close>

theorem main_model_requests_target_config:
  assumes "ebind (loadConfig f) read_config = Inr (apiKey, region, item)"
    and "cs \<in> set (fst (main_model f frames))" and "req \<in> set cs"
  shows "req_region req = region \<and> req_item req = item \<and> req_auth req = ''Bearer '' @ apiKey \<and>
         req_limit req = 100"
proof -
  have "main_model f frames = run_frames region item apiKey frames app_init"
    unfolding main_model_def assms(1) by simp
  then have "list_all (list_all (\<lambda>req. \<exists>off. req = lot_request region item apiKey off))
      (fst (main_model f frames))"
    by (metis prod.collapse run_frames_targets)
  with assms(2,3) obtain off where "req = lot_request region item apiKey off"
    unfolding list_all_iff by blast
  then show ?thesis
    by (simp add: lot_request_def limit_def)
qed

theorem main_model_requests_target_config_witness:
  "ebind (loadConfig (FileText (Some (JObj [(''api_key'', JStr ''key''), (''region'', JStr ''eu''),
      (''item_id'', JStr ''y1zq'')])))) read_config = Inr (''key'', ''eu'', ''y1zq'') \<and>
   main_model (FileText (Some (JObj [(''api_key'', JStr ''key''), (''region'', JStr ''eu''),
      (''item_id'', JStr ''y1zq'')])))
     [\<lparr>now = 3, refresh_clicked = True, toggle_clicked = False, endpoint_timed = example_endpoint, endpoint_click = example_endpoint\<rparr>] =
     ([[lot_request ''eu'' ''y1zq'' ''key'' 0]], Inr (ui_init, example_session)) \<and>
   req_auth (lot_request ''eu'' ''y1zq'' ''key'' 0) = ''Bearer key''"
proof -
  have cfg: "ebind (loadConfig (FileText (Some (JObj [(''api_key'', JStr ''key''), (''region'', JStr ''eu''),
      (''item_id'', JStr ''y1zq'')])))) read_config = Inr (''key'', ''eu'', ''y1zq'')"
    by (simp add: loadConfig_def read_config_def config_string_def)
  have run: "main_model (FileText (Some (JObj [(''api_key'', JStr ''key''), (''region'', JStr ''eu''),
      (''item_id'', JStr ''y1zq'')])))
     [\<lparr>now = 3, refresh_clicked = True, toggle_clicked = False, endpoint_timed = example_endpoint, endpoint_click = example_endpoint\<rparr>] =
     ([[lot_request ''eu'' ''y1zq'' ''key'' 0]], Inr (ui_init, example_session))"
    by (simp add: main_model_def cfg drawUI_def auto_refresh_step_def manual_refresh_step_def
        checkbox_step_def app_init_def ui_init_def auto_refresh_due_def example_cycle)
  have "req_auth (lot_request ''eu'' ''y1zq'' ''key'' 0) = ''Bearer key''"
    using main_model_requests_target_config [OF cfg, of "[lot_request ''eu'' ''y1zq'' ''key'' 0]"
        "[\<lparr>now = 3, refresh_clicked = True, toggle_clicked = False, endpoint_timed = example_endpoint, endpoint_click = example_endpoint\<rparr>]"
        "lot_request ''eu'' ''y1zq'' ''key'' 0"] run
    by simp
  with cfg run show ?thesis by simp
qed



end
